theory Spec2Isabelle
  imports Complex_Main "HOL-Library.AList" "HOL-Library.Multiset"
begin

section \<open>JavaScript values and errors\<close>

text \<open>
  A JavaScript \<open>number\<close> is a double: a finite value, NaN or an infinity. The wrapper
  never computes with the numbers it is given; it tests one of them for truthiness and
  splices it into a method name, and passes the others on to the context.
\<close>

datatype jsnumber = Finite real | NaN | PosInfinity | NegInfinity

fun truthy_number :: "jsnumber \<Rightarrow> bool" where
  "truthy_number (Finite r) = (r \<noteq> 0)"
| "truthy_number NaN = False"
| "truthy_number PosInfinity = True"
| "truthy_number NegInfinity = True"

text \<open>An optional parameter is \<open>None\<close> when the caller leaves it \<open>undefined\<close>.\<close>

fun truthy_flag :: "bool option \<Rightarrow> bool" where
  "truthy_flag None = False"
| "truthy_flag (Some b) = b"

text \<open>
  Every \<open>throw\<close> of the source is \<open>throw new Error(message)\<close>; \<open>TypeError\<close> is what the
  language raises when a dynamically selected method does not exist, or when a value has
  no conversion to a string (its text depends on the engine); \<open>Thrown\<close> is any other
  value that a conversion written by the caller throws, under a description of it.
\<close>

datatype error = Error string | TypeError | Thrown string

text \<open>\<open>x || fallback\<close> for a string or null \<open>x\<close>: null and the empty string are falsy.\<close>

fun or_default :: "string option \<Rightarrow> string \<Rightarrow> string" where
  "or_default None fallback = fallback"
| "or_default (Some s) fallback = (if s = [] then fallback else s)"

text \<open>
  A value handed to \<open>Program.uniform\<close>: a number, a boolean, or anything else, which is
  described by the class name that \<open>Object.prototype.toString\<close> reports for it
  (\<open>Array\<close>, \<open>Float32Array\<close>, \<open>String\<close>, \<open>Null\<close>, \<open>Symbol\<close>, ...), the outcome of
  converting it to a string, as \<open>"text" + value\<close> does, and its indexed elements. The
  conversion yields a text, or it throws: a TypeError for a Symbol and for an object
  without a string conversion, and whatever a \<open>toString\<close> of the caller's throws.
\<close>

datatype jsvalue =
    JNumber jsnumber
  | JBoolean bool
  | JObject string "error + string" "jsnumber list"

fun class_name :: "jsvalue \<Rightarrow> string" where
  "class_name (JNumber n) = ''Number''"
| "class_name (JBoolean b) = ''Boolean''"
| "class_name (JObject c s xs) = c"

fun elements :: "jsvalue \<Rightarrow> jsnumber list" where
  "elements (JObject c s xs) = xs"
| "elements v = []"

section \<open>The rendering context\<close>

text \<open>
  Resources of the context (buffers, framebuffers, renderbuffers, shaders, programs,
  uniform locations) are opaque handles. The enumerants are those of the WebGL
  specification.
\<close>

type_synonym handle = nat

definition ARRAY_BUFFER :: nat where "ARRAY_BUFFER = 34962"
definition DYNAMIC_DRAW :: nat where "DYNAMIC_DRAW = 35048"
definition FRAMEBUFFER :: nat where "FRAMEBUFFER = 36160"
definition RENDERBUFFER :: nat where "RENDERBUFFER = 36161"
definition DEPTH_COMPONENT16 :: nat where "DEPTH_COMPONENT16 = 33189"
definition DEPTH_ATTACHMENT :: nat where "DEPTH_ATTACHMENT = 36096"
definition VERTEX_SHADER :: nat where "VERTEX_SHADER = 35633"
definition FRAGMENT_SHADER :: nat where "FRAGMENT_SHADER = 35632"
definition COMPILE_STATUS :: nat where "COMPILE_STATUS = 35713"
definition LINK_STATUS :: nat where "LINK_STATUS = 35714"
definition FLOAT :: nat where "FLOAT = 5126"

text \<open>
  What \<open>Buffer.update\<close> uploads: \<open>Float32ArrayOf xs\<close> stands for \<open>new Float32Array(xs)\<close>,
  four bytes an element; any other ArrayBuffer or view is its bytes.
\<close>

datatype buffer_source = Float32ArrayOf "jsnumber list" | Bytes "nat list"

fun byteLength :: "buffer_source \<Rightarrow> nat" where
  "byteLength (Float32ArrayOf xs) = 4 * length xs"
| "byteLength (Bytes bs) = length bs"

text \<open>
  What \<open>this.vars[name]\<close> can yield: a uniform location object, the number that
  \<open>getAttribLocation\<close> returned, or a member inherited from \<open>Object.prototype\<close>.
\<close>

datatype location = UniformLocation handle | AttribLocation int | Inherited string

text \<open>
  The calls the wrapper makes on the context, with their arguments. \<open>UniformVec n i\<close> is
  the entry point named \<open>uniform\<close>, \<open>n\<close>, \<open>i\<close> or \<open>f\<close>, \<open>v\<close>; \<open>UniformMatrix n\<close> is
  \<open>uniformMatrix\<close>, \<open>n\<close>, \<open>fv\<close>.
\<close>

datatype glcall =
    CreateBuffer
  | BindBuffer nat "handle option"
  | BufferData nat buffer_source nat
  | BufferSubData nat nat buffer_source
  | CreateFramebuffer
  | BindFramebuffer nat "handle option"
  | CreateRenderbuffer
  | RenderbufferStorage nat nat jsnumber jsnumber
  | FramebufferRenderbuffer nat nat nat "handle option"
  | CreateProgram
  | CreateShader nat
  | ShaderSource handle string
  | CompileShader handle
  | GetShaderParameter handle nat
  | GetShaderInfoLog handle
  | AttachShader handle handle
  | LinkProgram handle
  | GetProgramParameter handle nat
  | GetProgramInfoLog handle
  | GetUniformLocation handle string
  | GetAttribLocation handle string
  | UniformVec nat bool "location option" jsvalue
  | Uniform1i "location option" jsvalue
  | Uniform1f "location option" jsvalue
  | UniformMatrix nat "location option" bool "jsnumber list"
  | EnableVertexAttribArray "location option"
  | VertexAttribPointer "location option" jsnumber nat bool jsnumber nat
  | DisableVertexAttribArray int

text \<open>
  The context is an external collaborator. Its state is the sequence of calls made on it
  so far, oldest first; what it returns from a call is a parameter of the model, a
  function of that sequence and of the arguments, so that a theorem holds for every
  context, real or mock. Entry points that return nothing are taken to return normally.
\<close>

record driver =
  createBuffer_ret :: "glcall list \<Rightarrow> handle option"
  createFramebuffer_ret :: "glcall list \<Rightarrow> handle option"
  createRenderbuffer_ret :: "glcall list \<Rightarrow> handle option"
  createProgram_ret :: "glcall list \<Rightarrow> handle option"
  createShader_ret :: "glcall list \<Rightarrow> nat \<Rightarrow> handle option"
  getShaderParameter_ret :: "glcall list \<Rightarrow> handle \<Rightarrow> nat \<Rightarrow> bool"
  getShaderInfoLog_ret :: "glcall list \<Rightarrow> handle \<Rightarrow> string option"
  getProgramParameter_ret :: "glcall list \<Rightarrow> handle \<Rightarrow> nat \<Rightarrow> bool"
  getProgramInfoLog_ret :: "glcall list \<Rightarrow> handle \<Rightarrow> string option"
  getUniformLocation_ret :: "glcall list \<Rightarrow> handle \<Rightarrow> string \<Rightarrow> handle option"
  getAttribLocation_ret :: "glcall list \<Rightarrow> handle \<Rightarrow> string \<Rightarrow> int"

section \<open>Buffer\<close>

record Buffer =
  buffer :: "handle option"
  target :: nat
  size_field :: int

definition Buffer_constructor :: "driver \<Rightarrow> nat option \<Rightarrow> glcall list \<Rightarrow> Buffer \<times> glcall list" where
  "Buffer_constructor d target_arg tr =
     (\<lparr>buffer = createBuffer_ret d tr,
       target = (case target_arg of None \<Rightarrow> ARRAY_BUFFER | Some t \<Rightarrow> t),
       size_field = - 1\<rparr>,
      tr @ [CreateBuffer])"

definition Buffer_bind :: "Buffer \<Rightarrow> glcall list \<Rightarrow> glcall list" where
  "Buffer_bind b tr = tr @ [BindBuffer (target b) (buffer b)]"

text \<open>The argument of \<open>update\<close>: a plain Array of numbers, or a BufferSource.\<close>

datatype update_data = PlainArray "jsnumber list" | Source buffer_source

fun to_buffer_source :: "update_data \<Rightarrow> buffer_source" where
  "to_buffer_source (PlainArray xs) = Float32ArrayOf xs"
| "to_buffer_source (Source s) = s"

definition Buffer_update :: "Buffer \<Rightarrow> update_data \<Rightarrow> nat option \<Rightarrow> glcall list \<Rightarrow> Buffer \<times> glcall list" where
  "Buffer_update b data_arg usage_arg tr =
     (let data = to_buffer_source data_arg;
          usage = (case usage_arg of None \<Rightarrow> DYNAMIC_DRAW | Some u \<Rightarrow> u);
          tr1 = Buffer_bind b tr
      in if size_field b \<noteq> int (byteLength data)
         then (b\<lparr>size_field := int (byteLength data)\<rparr>, tr1 @ [BufferData (target b) data usage])
         else (b, tr1 @ [BufferSubData (target b) 0 data]))"

section \<open>Framebuffer\<close>

record Framebuffer =
  framebuffer :: "handle option"
  renderbuffer :: "handle option"

text \<open>
  A call \<open>new Framebuffer(gl)\<close> or \<open>new Framebuffer(gl, x)\<close>: the second argument is
  absent, or it is \<open>undefined\<close>, \<open>null\<close> or a framebuffer. The parameter is declared
  \<open>framebuffer = null\<close>, so it holds null when the argument is absent or \<open>undefined\<close>;
  \<open>arguments.length\<close> counts what the caller wrote.
\<close>

datatype fb_arg = ArgUndefined | ArgNull | ArgFramebuffer handle

fun arguments_length :: "fb_arg option \<Rightarrow> nat" where
  "arguments_length None = 1"
| "arguments_length (Some a) = 2"

fun framebuffer_param :: "fb_arg option \<Rightarrow> handle option" where
  "framebuffer_param None = None"
| "framebuffer_param (Some ArgUndefined) = None"
| "framebuffer_param (Some ArgNull) = None"
| "framebuffer_param (Some (ArgFramebuffer h)) = Some h"

definition Framebuffer_constructor ::
  "driver \<Rightarrow> fb_arg option \<Rightarrow> glcall list \<Rightarrow> Framebuffer \<times> glcall list" where
  "Framebuffer_constructor d arg tr =
     (if arguments_length arg = 2
      then (\<lparr>framebuffer = framebuffer_param arg, renderbuffer = None\<rparr>, tr)
      else (\<lparr>framebuffer = createFramebuffer_ret d tr, renderbuffer = None\<rparr>,
            tr @ [CreateFramebuffer]))"

definition Framebuffer_bind :: "Framebuffer \<Rightarrow> glcall list \<Rightarrow> glcall list" where
  "Framebuffer_bind fb tr = tr @ [BindFramebuffer FRAMEBUFFER (framebuffer fb)]"

definition Framebuffer_attachDepth ::
  "driver \<Rightarrow> Framebuffer \<Rightarrow> jsnumber \<Rightarrow> jsnumber \<Rightarrow> glcall list \<Rightarrow> Framebuffer \<times> glcall list" where
  "Framebuffer_attachDepth d fb width height tr =
     (let tr1 = Framebuffer_bind fb tr
      in if renderbuffer fb = None
         then (let rb = createRenderbuffer_ret d tr1
               in (fb\<lparr>renderbuffer := rb\<rparr>,
                   tr1 @ [CreateRenderbuffer,
                          RenderbufferStorage RENDERBUFFER DEPTH_COMPONENT16 width height,
                          FramebufferRenderbuffer FRAMEBUFFER DEPTH_ATTACHMENT RENDERBUFFER rb]))
         else (fb, tr1))"

section \<open>Program\<close>

text \<open>
  \<open>vars\<close> is a plain object used as a dictionary: its own properties, in the order of
  their creation, and behind them the members every object inherits from
  \<open>Object.prototype\<close>. Reading \<open>this.vars[name]\<close> finds an own property first and an
  inherited member otherwise; only a name that is neither reads as \<open>undefined\<close>.
\<close>

type_synonym vars = "(string \<times> location) list"

definition object_prototype_names :: "string list" where
  "object_prototype_names =
     [''constructor'', ''hasOwnProperty'', ''isPrototypeOf'', ''propertyIsEnumerable'',
      ''toLocaleString'', ''toString'', ''valueOf'', ''__proto__'',
      ''__defineGetter__'', ''__defineSetter__'', ''__lookupGetter__'', ''__lookupSetter__'']"

definition vars_get :: "vars \<Rightarrow> string \<Rightarrow> location option" where
  "vars_get vs name =
     (case map_of vs name of
        Some l \<Rightarrow> Some l
      | None \<Rightarrow> if name \<in> set object_prototype_names then Some (Inherited name) else None)"

text \<open>
  \<open>this.vars[name] = loc\<close> is only reached when \<open>this.vars[name]\<close> read as \<open>undefined\<close>;
  it creates the own property \<open>name\<close> behind the existing ones.
\<close>

definition vars_set :: "vars \<Rightarrow> string \<Rightarrow> location \<Rightarrow> vars" where
  "vars_set vs name l = AList.update name l vs"

record Program =
  program :: handle
  vars :: vars

definition Program_makeShader ::
  "driver \<Rightarrow> nat \<Rightarrow> string \<Rightarrow> glcall list \<Rightarrow> (error + handle) \<times> glcall list" where
  "Program_makeShader d type source tr =
     (case createShader_ret d tr type of
        None \<Rightarrow> (Inl (Error ''Failed to create shader''), tr @ [CreateShader type])
      | Some shader \<Rightarrow>
          (let tr1 = tr @ [CreateShader type, ShaderSource shader source, CompileShader shader];
               tr2 = tr1 @ [GetShaderParameter shader COMPILE_STATUS]
           in if getShaderParameter_ret d tr1 shader COMPILE_STATUS
              then (Inr shader, tr2)
              else (Inl (Error (or_default (getShaderInfoLog_ret d tr2 shader)
                                  ''Failed to compile shader'')),
                    tr2 @ [GetShaderInfoLog shader])))"

definition Program_constructor ::
  "driver \<Rightarrow> string \<Rightarrow> string \<Rightarrow> glcall list \<Rightarrow> (error + Program) \<times> glcall list" where
  "Program_constructor d vertex fragment tr =
     (case createProgram_ret d tr of
        None \<Rightarrow> (Inl (Error ''Failed to create program''), tr @ [CreateProgram])
      | Some p \<Rightarrow>
          (case Program_makeShader d VERTEX_SHADER vertex (tr @ [CreateProgram]) of
             (Inl e, tr1) \<Rightarrow> (Inl e, tr1)
           | (Inr vs, tr1) \<Rightarrow>
               (case Program_makeShader d FRAGMENT_SHADER fragment (tr1 @ [AttachShader p vs]) of
                  (Inl e, tr2) \<Rightarrow> (Inl e, tr2)
                | (Inr fs, tr2) \<Rightarrow>
                    (let tr3 = tr2 @ [AttachShader p fs, LinkProgram p];
                         tr4 = tr3 @ [GetProgramParameter p LINK_STATUS]
                     in if \<not> getProgramParameter_ret d tr3 p LINK_STATUS
                        then (Inl (Error (or_default (getProgramInfoLog_ret d tr4 p)
                                            ''Failed to link program'')),
                              tr4 @ [GetProgramInfoLog p])
                        else (Inr \<lparr>program = p, vars = []\<rparr>, tr4)))))"

text \<open>
  \<open>uniform\<close> and \<open>matrix\<close> open with the same lines: look the name up in \<open>vars\<close>, and when
  it reads as null or \<open>undefined\<close> ask the context, throw if the answer is null, and
  store it otherwise. The result is the error thrown if any, the wrapper and the context.
\<close>

definition locate_uniform ::
  "driver \<Rightarrow> Program \<Rightarrow> string \<Rightarrow> glcall list \<Rightarrow> error option \<times> Program \<times> glcall list" where
  "locate_uniform d P name tr =
     (if vars_get (vars P) name = None
      then (case getUniformLocation_ret d tr (program P) name of
              None \<Rightarrow> (Some (Error (''Failed to locate uniform '' @ [CHR 0x27] @ name @ [CHR 0x27])),
                       P, tr @ [GetUniformLocation (program P) name])
            | Some loc \<Rightarrow> (None, P\<lparr>vars := vars_set (vars P) name (UniformLocation loc)\<rparr>,
                           tr @ [GetUniformLocation (program P) name]))
      else (None, P, tr))"

text \<open>
  \<open>Igloo.isArray\<close> matches the text \<open>[object C]\<close>, \<open>C\<close> the class name, against the
  regular expression: a space, optionally one of the typed-array prefixes, then
  \<open>Array]\<close> at the end.
\<close>

definition ends_with :: "string \<Rightarrow> string \<Rightarrow> bool" where
  "ends_with suffix s =
     (length suffix \<le> length s \<and> drop (length s - length suffix) s = suffix)"

definition Igloo_isArray :: "jsvalue \<Rightarrow> bool" where
  "Igloo_isArray object =
     (let name = ''[object '' @ class_name object @ '']''
      in list_ex (\<lambda>prefix. ends_with ('' '' @ prefix @ ''Array]'') name)
           ['''', ''Float32'', ''Float64'', ''Int16'', ''Int32'', ''Int8'',
            ''Uint16'', ''Uint32'', ''Uint8'', ''Uint8Clamped''])"

text \<open>
  The method is found by name: \<open>"uniform" + l + ("i" or "f") + "v"\<close>. The context has
  such a method exactly when the number \<open>l\<close> prints as 1, 2, 3 or 4; any other number
  gives a name the context lacks, and calling it is a TypeError.
\<close>

definition vector_entry_point :: "jsnumber \<Rightarrow> nat option" where
  "vector_entry_point l =
     (if l = Finite 1 then Some 1 else if l = Finite 2 then Some 2
      else if l = Finite 3 then Some 3 else if l = Finite 4 then Some 4 else None)"

text \<open>
  The second half of \<open>uniform\<close>: from the location \<open>v\<close> read back from \<open>vars\<close>, the value
  and the flags, the error thrown if any and the calls made on the context. In the last
  branch the message is built first, by \<open>"Invalid uniform value: " + value\<close>: when that
  conversion throws, its error is what leaves \<open>uniform\<close>, and no Error is constructed.
\<close>

definition uniform_dispatch ::
  "location option \<Rightarrow> jsvalue \<Rightarrow> bool option \<Rightarrow> jsnumber option \<Rightarrow> error option \<times> glcall list" where
  "uniform_dispatch v val i dim_arg =
     (if Igloo_isArray val
      then (let l = (case dim_arg of
                       None \<Rightarrow> Finite (real (length (elements val)))
                     | Some n \<Rightarrow> if truthy_number n then n
                                else Finite (real (length (elements val))))
            in case vector_entry_point l of
                 None \<Rightarrow> (Some TypeError, [])
               | Some n \<Rightarrow> (None, [UniformVec n (truthy_flag i) v val]))
      else (case val of
              JNumber x \<Rightarrow> (None, [if truthy_flag i then Uniform1i v val else Uniform1f v val])
            | JBoolean b \<Rightarrow> (None, [if truthy_flag i then Uniform1i v val else Uniform1f v val])
            | JObject c s xs \<Rightarrow>
                (case s of
                   Inl e \<Rightarrow> (Some e, [])
                 | Inr text \<Rightarrow> (Some (Error (''Invalid uniform value: '' @ text)), []))))"

definition Program_uniform ::
  "driver \<Rightarrow> Program \<Rightarrow> string \<Rightarrow> jsvalue \<Rightarrow> bool option \<Rightarrow> jsnumber option \<Rightarrow> glcall list
     \<Rightarrow> error option \<times> Program \<times> glcall list" where
  "Program_uniform d P name val i dim_arg tr =
     (case locate_uniform d P name tr of
        (Some e, P1, tr1) \<Rightarrow> (Some e, P1, tr1)
      | (None, P1, tr1) \<Rightarrow>
          (case uniform_dispatch (vars_get (vars P1) name) val i dim_arg of
             (e, calls) \<Rightarrow> (e, P1, tr1 @ calls)))"

definition Program_uniformi ::
  "driver \<Rightarrow> Program \<Rightarrow> string \<Rightarrow> jsvalue \<Rightarrow> glcall list \<Rightarrow> error option \<times> Program \<times> glcall list" where
  "Program_uniformi d P name val tr = Program_uniform d P name val (Some True) None tr"

text \<open>
  \<open>Math.sqrt\<close> of a length is a whole number exactly when the length is a perfect square;
  \<open>Math_sqrt\<close> is that whole number, and \<open>None\<close> when the root has a fraction. The method
  \<open>"uniformMatrix" + root + "fv"\<close> exists for the roots 2, 3 and 4.
\<close>

definition Math_sqrt :: "nat \<Rightarrow> nat option" where
  "Math_sqrt n = List.find (\<lambda>k. k * k = n) [0..<Suc n]"

definition matrix_entry_point :: "nat option \<Rightarrow> nat option" where
  "matrix_entry_point r =
     (case r of
        None \<Rightarrow> None
      | Some k \<Rightarrow> if k = 2 \<or> k = 3 \<or> k = 4 then Some k else None)"

definition Program_matrix ::
  "driver \<Rightarrow> Program \<Rightarrow> string \<Rightarrow> jsnumber list \<Rightarrow> bool option \<Rightarrow> glcall list
     \<Rightarrow> error option \<times> Program \<times> glcall list" where
  "Program_matrix d P name matrix transpose_arg tr =
     (case locate_uniform d P name tr of
        (Some e, P1, tr1) \<Rightarrow> (Some e, P1, tr1)
      | (None, P1, tr1) \<Rightarrow>
          (case matrix_entry_point (Math_sqrt (length matrix)) of
             None \<Rightarrow> (Some TypeError, P1, tr1)
           | Some n \<Rightarrow>
               (None, P1,
                tr1 @ [UniformMatrix n (vars_get (vars P1) name) (truthy_flag transpose_arg) matrix])))"

definition Program_attrib ::
  "driver \<Rightarrow> Program \<Rightarrow> string \<Rightarrow> Buffer \<Rightarrow> jsnumber \<Rightarrow> jsnumber option \<Rightarrow> glcall list
     \<Rightarrow> Program \<times> glcall list" where
  "Program_attrib d P name val size_arg stride tr =
     (let (P1, tr1) =
            (if vars_get (vars P) name = None
             then (P\<lparr>vars := vars_set (vars P) name
                               (AttribLocation (getAttribLocation_ret d tr (program P) name))\<rparr>,
                   tr @ [GetAttribLocation (program P) name])
             else (P, tr));
          tr2 = Buffer_bind val tr1;
          loc = vars_get (vars P1) name
      in (P1, tr2 @ [EnableVertexAttribArray loc,
                     VertexAttribPointer loc size_arg FLOAT False
                       (case stride of None \<Rightarrow> Finite 0 | Some s \<Rightarrow> s) 0]))"

text \<open>
  \<open>for (const attrib in this.vars)\<close> visits the own properties: first the keys that are
  array indices (canonical decimal numbers below \<open>2^32 - 1\<close>) in ascending order, then
  the other keys in the order of their creation. \<open>Object.prototype\<close> has no enumerable
  member, so nothing inherited is visited.
\<close>

definition is_digit :: "char \<Rightarrow> bool" where
  "is_digit c = ((48::int) \<le> of_char c \<and> of_char c \<le> (57::int))"

definition decimal :: "string \<Rightarrow> int" where
  "decimal s = foldl (\<lambda>a c. 10 * a + (of_char c - 48)) 0 s"

definition is_array_index :: "string \<Rightarrow> bool" where
  "is_array_index s =
     (s \<noteq> [] \<and> list_all is_digit s \<and> (s = ''0'' \<or> hd s \<noteq> CHR ''0'') \<and> decimal s < 4294967295)"

definition for_in_keys :: "vars \<Rightarrow> string list" where
  "for_in_keys vs =
     sort_key decimal (filter is_array_index (map fst vs))
     @ filter (\<lambda>k. \<not> is_array_index k) (map fst vs)"

text \<open>
  \<open>this.vars.hasOwnProperty(attrib)\<close> reads the member \<open>hasOwnProperty\<close> of \<open>vars\<close> and
  calls it: the inherited function answers whether \<open>attrib\<close> is an own property; an own
  property of that name would hold a location, and calling that is a TypeError.
\<close>

fun disable_loop :: "vars \<Rightarrow> string list \<Rightarrow> glcall list \<Rightarrow> error option \<times> glcall list" where
  "disable_loop vs [] tr = (None, tr)"
| "disable_loop vs (attrib # rest) tr =
     (let location = vars_get vs attrib
      in case vars_get vs ''hasOwnProperty'' of
           Some (Inherited f) \<Rightarrow>
             (if map_of vs attrib \<noteq> None
              then (case location of
                      Some (AttribLocation n) \<Rightarrow>
                        disable_loop vs rest (tr @ [DisableVertexAttribArray n])
                    | _ \<Rightarrow> disable_loop vs rest tr)
              else disable_loop vs rest tr)
         | _ \<Rightarrow> (Some TypeError, tr))"

definition Program_disable :: "Program \<Rightarrow> glcall list \<Rightarrow> error option \<times> Program \<times> glcall list" where
  "Program_disable P tr =
     (case disable_loop (vars P) (for_in_keys (vars P)) tr of (e, tr1) \<Rightarrow> (e, P, tr1))"

section \<open>Igloo\<close>

text \<open>
  A canvas answers \<open>getContext(contextId, attributes)\<close> by throwing, or by returning a
  context or null. A context knows the canvas it belongs to.
\<close>

record rendering_context =
  context_id :: nat
  canvas_of :: nat

datatype context_result = Throws | Returns "rendering_context option"

type_synonym options = "(string \<times> jsvalue) list"

record canvas =
  canvas_id :: nat
  getContext :: "string \<Rightarrow> options \<Rightarrow> context_result"

datatype igloo_arg = FromCanvas canvas | FromContext rendering_context

text \<open>The field \<open>gl\<close> holds whatever the constructor's variable \<open>gl\<close> holds at the end.\<close>

datatype gl_field = GLContext rendering_context | GLCanvas nat

record Igloo =
  gl :: gl_field
  canvas :: nat
  defaultFramebuffer :: Framebuffer

definition Igloo_getContext ::
  "canvas \<Rightarrow> options option \<Rightarrow> bool option \<Rightarrow> error + rendering_context option" where
  "Igloo_getContext cv opts noerror =
     (let ctx = (case getContext cv ''webgl2'' (case opts of None \<Rightarrow> [] | Some os \<Rightarrow> os) of
                  Throws \<Rightarrow> None
                | Returns r \<Rightarrow> r)
      in if ctx = None \<and> \<not> truthy_flag noerror
         then Inl (Error ''Could not create WebGL context.'')
         else Inr ctx)"

definition Igloo_constructor ::
  "driver \<Rightarrow> igloo_arg \<Rightarrow> options option \<Rightarrow> glcall list \<Rightarrow> (error + Igloo) \<times> glcall list" where
  "Igloo_constructor d arg opts tr =
     (case arg of
        FromCanvas cv \<Rightarrow>
          (case Igloo_getContext cv opts None of
             Inl e \<Rightarrow> (Inl e, tr)
           | Inr temp \<Rightarrow>
               (let g = (case temp of Some ctx \<Rightarrow> GLContext ctx | None \<Rightarrow> GLCanvas (canvas_id cv))
                in case Framebuffer_constructor d (Some ArgNull) tr of
                     (fb, tr1) \<Rightarrow>
                       (Inr \<lparr>gl = g, canvas = canvas_id cv, defaultFramebuffer = fb\<rparr>, tr1)))
      | FromContext ctx \<Rightarrow>
          (case Framebuffer_constructor d (Some ArgNull) tr of
             (fb, tr1) \<Rightarrow>
               (Inr \<lparr>gl = GLContext ctx, canvas = canvas_of ctx, defaultFramebuffer = fb\<rparr>, tr1)))"

section \<open>Notions used in the statements\<close>

text \<open>The location queries among a sequence of context calls, in order.\<close>

fun is_location_query :: "glcall \<Rightarrow> bool" where
  "is_location_query (GetUniformLocation p name) = True"
| "is_location_query (GetAttribLocation p name) = True"
| "is_location_query c = False"

definition location_queries :: "glcall list \<Rightarrow> glcall list" where
  "location_queries tr = filter is_location_query tr"

text \<open>The error that \<open>uniform\<close> and \<open>matrix\<close> throw for a name the context does not know.\<close>

abbreviation not_found :: "string \<Rightarrow> error" where
  "not_found name \<equiv> Error (''Failed to locate uniform '' @ [CHR 0x27] @ name @ [CHR 0x27])"

text \<open>
  The size that selects the vector entry point: the \<open>dim\<close> argument when it is given and
  truthy (not 0, not NaN), the length of the array otherwise.
\<close>

definition vector_size :: "jsnumber option \<Rightarrow> jsvalue \<Rightarrow> jsnumber" where
  "vector_size dim_arg val =
     (case dim_arg of
        None \<Rightarrow> Finite (real (length (elements val)))
      | Some n \<Rightarrow> if truthy_number n then n else Finite (real (length (elements val))))"

text \<open>The link attempts among a sequence of context calls.\<close>

fun is_link_attempt :: "glcall \<Rightarrow> bool" where
  "is_link_attempt (LinkProgram p) = True"
| "is_link_attempt c = False"

definition link_attempts :: "glcall list \<Rightarrow> glcall list" where
  "link_attempts tr = filter is_link_attempt tr"

text \<open>The calls of \<open>makeShader\<close> before it reads the compile status.\<close>

definition compile_calls :: "nat \<Rightarrow> handle \<Rightarrow> string \<Rightarrow> glcall list" where
  "compile_calls type shader source =
     [CreateShader type, ShaderSource shader source, CompileShader shader]"

text \<open>
  The state of \<open>vars\<close> in every Program the code can build: no name is stored twice, and
  no stored name is one of the inherited ones (\<open>vars_ok_constructor\<close>, \<open>vars_ok_uniform\<close>,
  \<open>vars_ok_matrix\<close> and \<open>vars_ok_attrib\<close> below).
\<close>

definition vars_ok :: "vars \<Rightarrow> bool" where
  "vars_ok vs =
     (distinct (map fst vs) \<and> list_all (\<lambda>k. k \<notin> set object_prototype_names) (map fst vs))"

text \<open>
  The attribute locations among the tracked entries: those whose value is a number. Read
  through the keys in the order of the \<open>for\<close>-\<open>in\<close> loop, and read off the entries.
\<close>

fun attribute_number :: "location \<Rightarrow> int option" where
  "attribute_number (AttribLocation n) = Some n"
| "attribute_number l = None"

definition tracked_attributes :: "vars \<Rightarrow> int list" where
  "tracked_attributes vs =
     List.map_filter (\<lambda>k. Option.bind (map_of vs k) attribute_number) (for_in_keys vs)"

text \<open>What the canvas yields for \<open>webgl2\<close>: a context, or nothing (null, or it threw).\<close>

definition canvas_context :: "canvas \<Rightarrow> options option \<Rightarrow> rendering_context option" where
  "canvas_context cv opts =
     (case getContext cv ''webgl2'' (case opts of None \<Rightarrow> [] | Some os \<Rightarrow> os) of
        Throws \<Rightarrow> None
      | Returns r \<Rightarrow> r)"

section \<open>A mock context and sample objects\<close>

text \<open>
  A context that hands out the number of calls so far, plus one, as the next handle,
  compiles and links everything, knows the uniform \<open>tint\<close> and the attribute \<open>points\<close>.
\<close>

definition mock_driver :: driver where
  "mock_driver =
     \<lparr>createBuffer_ret = (\<lambda>tr. Some (Suc (length tr))),
      createFramebuffer_ret = (\<lambda>tr. Some (Suc (length tr))),
      createRenderbuffer_ret = (\<lambda>tr. Some (Suc (length tr))),
      createProgram_ret = (\<lambda>tr. Some (Suc (length tr))),
      createShader_ret = (\<lambda>tr ty. Some (Suc (length tr))),
      getShaderParameter_ret = (\<lambda>tr s pname. True),
      getShaderInfoLog_ret = (\<lambda>tr s. Some []),
      getProgramParameter_ret = (\<lambda>tr p pname. True),
      getProgramInfoLog_ret = (\<lambda>tr p. Some []),
      getUniformLocation_ret = (\<lambda>tr p name. if name = ''tint'' then Some 7 else None),
      getAttribLocation_ret = (\<lambda>tr p name. if name = ''points'' then 0 else - 1)\<rparr>"

text \<open>Contexts whose compiler rejects every shader, with and without a diagnostic.\<close>

definition rejecting_driver :: driver where
  "rejecting_driver =
     mock_driver\<lparr>getShaderParameter_ret := (\<lambda>tr s pname. False),
                 getShaderInfoLog_ret := (\<lambda>tr s. Some ''ERROR: 0:1: syntax error'')\<rparr>"

definition silent_driver :: driver where
  "silent_driver = mock_driver\<lparr>getShaderParameter_ret := (\<lambda>tr s pname. False)\<rparr>"

text \<open>A context that rejects fragment shaders only, and one whose linker fails.\<close>

definition fragment_rejecting_driver :: driver where
  "fragment_rejecting_driver =
     mock_driver\<lparr>getShaderParameter_ret := (\<lambda>tr s pname. CreateShader FRAGMENT_SHADER \<notin> set tr),
                 getShaderInfoLog_ret := (\<lambda>tr s. Some ''ERROR: 0:2: undeclared identifier'')\<rparr>"

definition unlinkable_driver :: driver where
  "unlinkable_driver =
     mock_driver\<lparr>getProgramParameter_ret := (\<lambda>tr p pname. False),
                 getProgramInfoLog_ret := (\<lambda>tr p. Some ''varying mismatch'')\<rparr>"

definition buffer0 :: Buffer where
  "buffer0 = \<lparr>buffer = Some 1, target = ARRAY_BUFFER, size_field = - 1\<rparr>"

definition framebuffer0 :: Framebuffer where
  "framebuffer0 = \<lparr>framebuffer = Some 1, renderbuffer = None\<rparr>"

definition program0 :: Program where
  "program0 = \<lparr>program = 1, vars = []\<rparr>"

definition program1 :: Program where
  "program1 =
     \<lparr>program = 1,
      vars = [(''tint'', UniformLocation 7), (''points'', AttribLocation 0),
              (''normal'', AttribLocation 3)]\<rparr>"

definition js_array :: "jsnumber list \<Rightarrow> jsvalue" where
  "js_array xs = JObject ''Array'' (Inr ''(the elements, joined by commas)'') xs"

definition blank_canvas :: canvas where
  "blank_canvas = \<lparr>canvas_id = 1, getContext = (\<lambda>contextId attributes. Returns None)\<rparr>"

definition throwing_canvas :: canvas where
  "throwing_canvas = \<lparr>canvas_id = 2, getContext = (\<lambda>contextId attributes. Throws)\<rparr>"

definition webgl2_canvas :: canvas where
  "webgl2_canvas =
     \<lparr>canvas_id = 3,
      getContext = (\<lambda>contextId attributes.
         if contextId = ''webgl2'' then Returns (Some \<lparr>context_id = 9, canvas_of = 3\<rparr>)
         else Returns None)\<rparr>"

section \<open>Facts about the model\<close>

subsection \<open>The dictionary\<close>

lemma update_fresh: "map_of al k = None \<Longrightarrow> AList.update k v al = al @ [(k, v)]"
  by (induction al) (auto split: if_splits)

lemma vars_get_NoneD: "vars_get vs name = None \<Longrightarrow> map_of vs name = None"
  by (auto simp: vars_get_def split: option.splits if_splits)

lemma vars_set_fresh: "vars_get vs name = None \<Longrightarrow> vars_set vs name l = vs @ [(name, l)]"
  by (simp add: vars_set_def update_fresh vars_get_NoneD)

lemma vars_get_stored: "vars_get (vs @ [(name, l)]) name \<noteq> None"
  by (simp add: vars_get_def split: option.splits)

lemma vars_get_fresh_stored:
  "vars_get vs name = None \<Longrightarrow> vars_get (vs @ [(name, l)]) name = Some l"
  by (auto simp: vars_get_def map_add_def split: option.splits if_splits)

lemma vars_ok_empty: "vars_ok []"
  by (simp add: vars_ok_def)

lemma vars_ok_set:
  assumes "vars_ok vs" and "vars_get vs name = None"
  shows "vars_ok (vars_set vs name l)"
proof -
  from assms(2) have m: "map_of vs name = None" and n: "name \<notin> set object_prototype_names"
    by (auto simp: vars_get_def split: option.splits if_splits)
  from m have "name \<notin> fst ` set vs"
    by (simp add: map_of_eq_None_iff)
  with assms(1) n show ?thesis
    by (simp add: vars_ok_def vars_set_def update_fresh [OF m])
qed

lemma hasOwnProperty_inherited:
  assumes "vars_ok vs"
  shows "vars_get vs ''hasOwnProperty'' = Some (Inherited ''hasOwnProperty'')"
proof -
  have "''hasOwnProperty'' \<in> set object_prototype_names"
    by (simp add: object_prototype_names_def)
  with assms have "''hasOwnProperty'' \<notin> fst ` set vs"
    by (auto simp: vars_ok_def list_all_iff)
  then have "map_of vs ''hasOwnProperty'' = None"
    by (simp add: map_of_eq_None_iff)
  then show ?thesis
    by (simp add: vars_get_def object_prototype_names_def)
qed

subsection \<open>Location lookup\<close>

lemma locate_fresh_found:
  "vars_get (vars P) name = None \<Longrightarrow> getUniformLocation_ret d tr (program P) name = Some loc \<Longrightarrow>
   locate_uniform d P name tr
     = (None, P\<lparr>vars := vars P @ [(name, UniformLocation loc)]\<rparr>,
        tr @ [GetUniformLocation (program P) name])"
  by (simp add: locate_uniform_def vars_set_fresh)

lemma locate_fresh_missing:
  "vars_get (vars P) name = None \<Longrightarrow> getUniformLocation_ret d tr (program P) name = None \<Longrightarrow>
   locate_uniform d P name tr = (Some (not_found name), P, tr @ [GetUniformLocation (program P) name])"
  by (simp add: locate_uniform_def)

lemma locate_cached:
  "vars_get (vars P) name \<noteq> None \<Longrightarrow> locate_uniform d P name tr = (None, P, tr)"
  by (auto simp: locate_uniform_def)

text \<open>
  A name that every object inherits is never looked up: \<open>vars\<close> answers for it with the
  inherited member, and no query is made.
\<close>

lemma locate_inherited:
  "name \<in> set object_prototype_names \<Longrightarrow> locate_uniform d P name tr = (None, P, tr)"
  by (rule locate_cached) (simp add: vars_get_def split: option.splits)

lemma vars_ok_locate:
  assumes "vars_ok (vars P)" and "locate_uniform d P name tr = (e, P1, tr1)"
  shows "vars_ok (vars P1)"
proof (cases "vars_get (vars P) name")
  case None
  then show ?thesis
    using assms by (cases "getUniformLocation_ret d tr (program P) name")
      (auto simp: locate_uniform_def vars_ok_set)
next
  case (Some l)
  then show ?thesis
    using assms by (auto simp: locate_uniform_def)
qed

subsection \<open>The invariant of \<open>vars\<close>\<close>

lemma vars_ok_constructor:
  assumes "Program_constructor d vertex fragment tr = (Inr P, tr1)"
  shows "vars_ok (vars P)"
proof -
  have "vars P = []"
    using assms
    by (auto simp: Program_constructor_def Let_def
        split: option.splits prod.splits sum.splits if_splits)
  then show ?thesis by (simp add: vars_ok_empty)
qed

lemma vars_ok_uniform:
  assumes "vars_ok (vars P)" and "Program_uniform d P name val i dm tr = (e, P1, tr1)"
  shows "vars_ok (vars P1)"
proof -
  obtain e0 P0 t0 where l: "locate_uniform d P name tr = (e0, P0, t0)"
    by (cases "locate_uniform d P name tr") auto
  have "P1 = P0"
    using assms(2) by (cases e0) (auto simp: Program_uniform_def l split: prod.splits)
  with vars_ok_locate [OF assms(1) l] show ?thesis by simp
qed

lemma vars_ok_matrix:
  assumes "vars_ok (vars P)" and "Program_matrix d P name m t tr = (e, P1, tr1)"
  shows "vars_ok (vars P1)"
proof -
  obtain e0 P0 t0 where l: "locate_uniform d P name tr = (e0, P0, t0)"
    by (cases "locate_uniform d P name tr") auto
  have "P1 = P0"
    using assms(2) by (cases e0) (auto simp: Program_matrix_def l split: option.splits)
  with vars_ok_locate [OF assms(1) l] show ?thesis by simp
qed

lemma vars_ok_attrib:
  assumes "vars_ok (vars P)" and "Program_attrib d P name buf sz st tr = (P1, tr1)"
  shows "vars_ok (vars P1)"
proof (cases "vars_get (vars P) name")
  case None
  then show ?thesis
    using assms by (auto simp: Program_attrib_def Let_def vars_ok_set)
next
  case (Some l)
  then show ?thesis
    using assms by (auto simp: Program_attrib_def Let_def)
qed

subsection \<open>Dispatch\<close>

lemma isArray_js_array: "Igloo_isArray (js_array xs)"
  by (simp add: Igloo_isArray_def js_array_def ends_with_def)

lemma isArray_typed_array: "Igloo_isArray (JObject ''Uint8ClampedArray'' s xs)"
  by (simp add: Igloo_isArray_def ends_with_def)

lemma not_isArray_other:
  "\<not> Igloo_isArray (JObject ''BigInt64Array'' s xs)"
  "\<not> Igloo_isArray (JObject ''ArrayBuffer'' s xs)"
  "\<not> Igloo_isArray (JObject ''String'' s xs)"
  "\<not> Igloo_isArray (JObject ''Symbol'' s xs)"
  "\<not> Igloo_isArray (JObject ''Object'' s xs)"
  by (simp_all add: Igloo_isArray_def ends_with_def)

lemma not_isArray_scalar: "\<not> Igloo_isArray (JNumber x)" "\<not> Igloo_isArray (JBoolean b)"
  by (simp_all add: Igloo_isArray_def ends_with_def)

lemma vector_entry_point_Some:
  "vector_entry_point l = Some n \<longleftrightarrow> (n = 1 \<or> n = 2 \<or> n = 3 \<or> n = 4) \<and> l = Finite (real n)"
  by (auto simp: vector_entry_point_def)

lemma vector_entry_point_None:
  "vector_entry_point l = None \<longleftrightarrow> l \<noteq> Finite 1 \<and> l \<noteq> Finite 2 \<and> l \<noteq> Finite 3 \<and> l \<noteq> Finite 4"
  by (auto simp: vector_entry_point_def)

lemma dispatch_no_query: "location_queries (snd (uniform_dispatch v val i dm)) = []"
  by (auto simp: uniform_dispatch_def location_queries_def Let_def
      split: option.splits jsvalue.splits sum.splits)

lemma uniform_after_locate:
  "locate_uniform d P name tr = (None, P1, tr1) \<Longrightarrow>
   \<exists>e calls. Program_uniform d P name val i dm tr = (e, P1, tr1 @ calls) \<and> location_queries calls = []"
  using dispatch_no_query [of "vars_get (vars P1) name" val i dm]
  by (cases "uniform_dispatch (vars_get (vars P1) name) val i dm") (simp add: Program_uniform_def)

lemma matrix_after_locate:
  "locate_uniform d P name tr = (None, P1, tr1) \<Longrightarrow>
   \<exists>e calls. Program_matrix d P name m t tr = (e, P1, tr1 @ calls) \<and> location_queries calls = []"
  by (auto simp: Program_matrix_def location_queries_def split: option.splits)

text \<open>\<open>Math_sqrt\<close> agrees with the real square root wherever that is a whole number.\<close>

lemma Math_sqrt_square: "Math_sqrt (k * k) = Some k"
proof -
  have "k < Suc (k * k)"
    by (cases k) auto
  moreover have "j * j \<noteq> k * k" if "j < k" for j
  proof -
    from that have "j * j < k * k" by (simp add: mult_strict_mono')
    then show ?thesis by simp
  qed
  ultimately show ?thesis
    unfolding Math_sqrt_def find_Some_iff
    by (intro exI [of _ k]) (auto simp: nth_upt simp del: upt_Suc)
qed

lemma Math_sqrt_Some: "Math_sqrt n = Some k \<Longrightarrow> k * k = n"
  by (auto simp: Math_sqrt_def find_Some_iff)

lemma Math_sqrt_real: "Math_sqrt n = Some k \<longleftrightarrow> sqrt (real n) = real k"
proof
  assume "Math_sqrt n = Some k"
  then have "k * k = n" by (rule Math_sqrt_Some)
  then have "real n = (real k)\<^sup>2" by (simp add: power2_eq_square flip: of_nat_mult)
  then show "sqrt (real n) = real k" by simp
next
  assume "sqrt (real n) = real k"
  then have "real n = (real k)\<^sup>2"
    by (metis of_nat_0_le_iff real_sqrt_pow2)
  then have "n = k * k"
    by (metis of_nat_eq_iff of_nat_mult power2_eq_square)
  then show "Math_sqrt n = Some k" by (simp add: Math_sqrt_square)
qed

subsection \<open>Two calls with one name\<close>

lemma uniform_twice:
  assumes fresh: "vars_get (vars P) name = None"
    and one: "Program_uniform d P name val1 i1 dim1 tr = (e1, P1, tr1)"
    and two: "Program_uniform d P1 name val2 i2 dim2 tr1 = (e2, P2, tr2)"
  shows "case getUniformLocation_ret d tr (program P) name of
           Some loc \<Rightarrow> vars P1 = vars P @ [(name, UniformLocation loc)] \<and> vars P2 = vars P1 \<and>
             location_queries (drop (length tr) tr2) = [GetUniformLocation (program P) name]
         | None \<Rightarrow> e1 = Some (not_found name) \<and> P1 = P \<and>
             location_queries (drop (length tr) tr2)
               = [GetUniformLocation (program P) name, GetUniformLocation (program P) name]"
proof (cases "getUniformLocation_ret d tr (program P) name")
  case (Some loc)
  from uniform_after_locate [where val = val1 and i = i1 and dm = dim1,
      OF locate_fresh_found [OF fresh Some]] one
  obtain calls1 where 1: "P1 = P\<lparr>vars := vars P @ [(name, UniformLocation loc)]\<rparr>"
    "tr1 = tr @ [GetUniformLocation (program P) name] @ calls1" "location_queries calls1 = []"
    by auto
  have "vars_get (vars P1) name \<noteq> None"
    by (simp add: 1 vars_get_stored)
  from uniform_after_locate [where val = val2 and i = i2 and dm = dim2,
      OF locate_cached [OF this, of d tr1]] two
  obtain calls2 where 2: "P2 = P1" "tr2 = tr1 @ calls2" "location_queries calls2 = []"
    by auto
  show ?thesis
    using 1 2 by (simp add: Some location_queries_def)
next
  case None
  have 1: "e1 = Some (not_found name)" "P1 = P" "tr1 = tr @ [GetUniformLocation (program P) name]"
    using one by (auto simp: Program_uniform_def locate_fresh_missing [OF fresh None])
  have "\<exists>calls. tr2 = tr1 @ [GetUniformLocation (program P) name] @ calls \<and> location_queries calls = []"
  proof (cases "getUniformLocation_ret d tr1 (program P) name")
    case None
    then show ?thesis
      using two fresh
      by (auto simp: 1 Program_uniform_def locate_fresh_missing location_queries_def)
  next
    case (Some loc)
    from uniform_after_locate [where val = val2 and i = i2 and dm = dim2,
        OF locate_fresh_found [OF fresh Some]] two
    show ?thesis by (auto simp: 1)
  qed
  then show ?thesis
    using 1 by (auto simp: None location_queries_def)
qed

lemma matrix_twice:
  assumes fresh: "vars_get (vars P) name = None"
    and one: "Program_matrix d P name m1 t1 tr = (e1, P1, tr1)"
    and two: "Program_matrix d P1 name m2 t2 tr1 = (e2, P2, tr2)"
  shows "case getUniformLocation_ret d tr (program P) name of
           Some loc \<Rightarrow> vars P1 = vars P @ [(name, UniformLocation loc)] \<and> vars P2 = vars P1 \<and>
             location_queries (drop (length tr) tr2) = [GetUniformLocation (program P) name]
         | None \<Rightarrow> e1 = Some (not_found name) \<and> P1 = P \<and>
             location_queries (drop (length tr) tr2)
               = [GetUniformLocation (program P) name, GetUniformLocation (program P) name]"
proof (cases "getUniformLocation_ret d tr (program P) name")
  case (Some loc)
  from matrix_after_locate [where m = m1 and t = t1, OF locate_fresh_found [OF fresh Some]] one
  obtain calls1 where 1: "P1 = P\<lparr>vars := vars P @ [(name, UniformLocation loc)]\<rparr>"
    "tr1 = tr @ [GetUniformLocation (program P) name] @ calls1" "location_queries calls1 = []"
    by auto
  have "vars_get (vars P1) name \<noteq> None"
    by (simp add: 1 vars_get_stored)
  from matrix_after_locate [where m = m2 and t = t2, OF locate_cached [OF this, of d tr1]] two
  obtain calls2 where 2: "P2 = P1" "tr2 = tr1 @ calls2" "location_queries calls2 = []"
    by auto
  show ?thesis
    using 1 2 by (simp add: Some location_queries_def)
next
  case None
  have 1: "e1 = Some (not_found name)" "P1 = P" "tr1 = tr @ [GetUniformLocation (program P) name]"
    using one by (auto simp: Program_matrix_def locate_fresh_missing [OF fresh None])
  have "\<exists>calls. tr2 = tr1 @ [GetUniformLocation (program P) name] @ calls \<and> location_queries calls = []"
  proof (cases "getUniformLocation_ret d tr1 (program P) name")
    case None
    then show ?thesis
      using two fresh
      by (auto simp: 1 Program_matrix_def locate_fresh_missing location_queries_def)
  next
    case (Some loc)
    from matrix_after_locate [where m = m2 and t = t2, OF locate_fresh_found [OF fresh Some]] two
    show ?thesis by (auto simp: 1)
  qed
  then show ?thesis
    using 1 by (auto simp: None location_queries_def)
qed

lemma attrib_twice:
  assumes fresh: "vars_get (vars P) name = None"
    and one: "Program_attrib d P name buf1 size1 stride1 tr = (P1, tr1)"
    and two: "Program_attrib d P1 name buf2 size2 stride2 tr1 = (P2, tr2)"
  shows "vars P1 = vars P @ [(name, AttribLocation (getAttribLocation_ret d tr (program P) name))] \<and>
         vars P2 = vars P1 \<and>
         location_queries (drop (length tr) tr2) = [GetAttribLocation (program P) name]"
proof -
  let ?l = "AttribLocation (getAttribLocation_ret d tr (program P) name)"
  have 1: "P1 = P\<lparr>vars := vars P @ [(name, ?l)]\<rparr>"
    "tr1 = tr @ [GetAttribLocation (program P) name, BindBuffer (target buf1) (buffer buf1),
                 EnableVertexAttribArray (Some ?l),
                 VertexAttribPointer (Some ?l) size1 FLOAT False
                   (case stride1 of None \<Rightarrow> Finite 0 | Some s \<Rightarrow> s) 0]"
    using one fresh
    by (auto simp: Program_attrib_def vars_set_fresh Buffer_bind_def vars_get_fresh_stored Let_def)
  have c: "vars_get (vars P1) name \<noteq> None"
    by (simp add: 1 vars_get_stored)
  have 2: "P2 = P1"
    "tr2 = tr1 @ [BindBuffer (target buf2) (buffer buf2),
                  EnableVertexAttribArray (vars_get (vars P1) name),
                  VertexAttribPointer (vars_get (vars P1) name) size2 FLOAT False
                    (case stride2 of None \<Rightarrow> Finite 0 | Some s \<Rightarrow> s) 0]"
    using two c by (auto simp: Program_attrib_def Buffer_bind_def Let_def)
  show ?thesis
    by (simp add: 2 location_queries_def) (simp add: 1)
qed

subsection \<open>Compiling\<close>

lemma makeShader_trace:
  "Program_makeShader d ty src t = (r, t1) \<Longrightarrow> \<exists>calls. t1 = t @ calls \<and> link_attempts calls = []"
  by (auto simp: Program_makeShader_def link_attempts_def Let_def split: option.splits if_splits)

lemma makeShader_compile_failure:
  assumes "createShader_ret d t ty = Some s"
    and "\<not> getShaderParameter_ret d (t @ compile_calls ty s src) s COMPILE_STATUS"
  shows "Program_makeShader d ty src t
     = (Inl (Error (or_default
                (getShaderInfoLog_ret d
                   (t @ compile_calls ty s src @ [GetShaderParameter s COMPILE_STATUS]) s)
                ''Failed to compile shader'')),
        t @ compile_calls ty s src @ [GetShaderParameter s COMPILE_STATUS, GetShaderInfoLog s])"
  using assms by (simp add: Program_makeShader_def compile_calls_def)

lemma makeShader_compiled:
  assumes "createShader_ret d t ty = Some s"
    and "getShaderParameter_ret d (t @ compile_calls ty s src) s COMPILE_STATUS"
  shows "Program_makeShader d ty src t
     = (Inr s, t @ compile_calls ty s src @ [GetShaderParameter s COMPILE_STATUS])"
  using assms by (simp add: Program_makeShader_def compile_calls_def)

subsection \<open>The loop of \<open>disable\<close>\<close>

lemma disable_loop_eq:
  assumes "vars_ok vs"
  shows "disable_loop vs ks tr
     = (None, tr @ map DisableVertexAttribArray
                     (List.map_filter (\<lambda>k. Option.bind (map_of vs k) attribute_number) ks))"
proof (induction ks arbitrary: tr)
  case Nil
  then show ?case by (simp add: List.map_filter_simps)
next
  case (Cons k ks)
  show ?case
  proof (cases "map_of vs k")
    case None
    then show ?thesis
      by (simp add: hasOwnProperty_inherited [OF assms] Cons.IH List.map_filter_simps)
  next
    case (Some l)
    then have "vars_get vs k = Some l" by (simp add: vars_get_def)
    then show ?thesis
      by (cases l)
        (simp_all add: hasOwnProperty_inherited [OF assms] Some Cons.IH List.map_filter_simps)
  qed
qed

lemma mset_for_in_keys: "mset (for_in_keys vs) = mset (map fst vs)"
proof -
  have "mset (for_in_keys vs)
      = filter_mset is_array_index (mset (map fst vs))
        + filter_mset (\<lambda>k. \<not> is_array_index k) (mset (map fst vs))"
    by (simp add: for_in_keys_def)
  then show ?thesis by simp
qed

lemma mset_map_filter:
  "mset (List.map_filter f xs) = image_mset (the \<circ> f) (filter_mset (\<lambda>x. f x \<noteq> None) (mset xs))"
  by (simp add: List.map_filter_def)

lemma map_filter_via_map: "List.map_filter f xs = List.map_filter id (map f xs)"
  by (induction xs) (simp_all add: List.map_filter_simps split: option.splits)

lemma map_filter_keys:
  assumes "distinct (map fst vs)"
  shows "List.map_filter (\<lambda>k. Option.bind (map_of vs k) attribute_number) (map fst vs)
       = List.map_filter attribute_number (map snd vs)"
proof -
  have "map_of vs (fst kv) = Some (snd kv)" if "kv \<in> set vs" for kv
    using that assms by simp
  then have m: "map (\<lambda>k. Option.bind (map_of vs k) attribute_number) (map fst vs)
      = map attribute_number (map snd vs)"
    by simp
  have "List.map_filter (\<lambda>k. Option.bind (map_of vs k) attribute_number) (map fst vs)
      = List.map_filter id (map (\<lambda>k. Option.bind (map_of vs k) attribute_number) (map fst vs))"
    by (rule map_filter_via_map)
  also have "\<dots> = List.map_filter id (map attribute_number (map snd vs))"
    by (simp only: m)
  also have "\<dots> = List.map_filter attribute_number (map snd vs)"
    by (rule map_filter_via_map [symmetric])
  finally show ?thesis .
qed

subsection \<open>The canvas\<close>

lemma Igloo_getContext_eq:
  "Igloo_getContext cv opts noerror =
     (if canvas_context cv opts = None \<and> \<not> truthy_flag noerror
      then Inl (Error ''Could not create WebGL context.'')
      else Inr (canvas_context cv opts))"
  by (auto simp: Igloo_getContext_def canvas_context_def Let_def)

subsection \<open>The mock context\<close>

lemma locate_tint:
  "locate_uniform mock_driver program0 ''tint'' []
     = (None, program0\<lparr>vars := [(''tint'', UniformLocation 7)]\<rparr>, [GetUniformLocation 1 ''tint''])"
  by (simp add: locate_uniform_def mock_driver_def program0_def vars_get_def vars_set_def
      object_prototype_names_def)

section \<open>Buffer: reallocation against overwrite\<close>

text \<open>
  C1. Take any Buffer and two consecutive \<open>update\<close> calls. After the first, the recorded
  size is the byte length of its payload. If the payload of the second has that byte
  length, the second call binds the buffer and overwrites it in place from offset zero
  (\<open>bufferSubData\<close>), makes no \<open>bufferData\<close> call and leaves the wrapper as it was; if
  the byte length differs, the second call binds the buffer, reallocates it with
  \<open>bufferData\<close> and records the new byte length.
\<close>

theorem Buffer_update_same_size_overwrites:
  assumes "Buffer_update b data1 usage1 tr = (b1, tr1)"
    and "Buffer_update b1 data2 usage2 tr1 = (b2, tr2)"
  shows "size_field b1 = int (byteLength (to_buffer_source data1)) \<and>
    (int (byteLength (to_buffer_source data2)) = size_field b1 \<longrightarrow>
       b2 = b1 \<and>
       tr2 = tr1 @ [BindBuffer (target b) (buffer b),
                    BufferSubData (target b) 0 (to_buffer_source data2)]) \<and>
    (int (byteLength (to_buffer_source data2)) \<noteq> size_field b1 \<longrightarrow>
       b2 = b1\<lparr>size_field := int (byteLength (to_buffer_source data2))\<rparr> \<and>
       tr2 = tr1 @ [BindBuffer (target b) (buffer b),
                    BufferData (target b) (to_buffer_source data2)
                      (case usage2 of None \<Rightarrow> DYNAMIC_DRAW | Some u \<Rightarrow> u)])"
proof -
  have b1: "target b1 = target b" "buffer b1 = buffer b"
    "size_field b1 = int (byteLength (to_buffer_source data1))"
    using assms(1) by (auto simp: Buffer_update_def Let_def split: if_splits)
  show ?thesis
    using assms(2) b1 by (auto simp: Buffer_update_def Buffer_bind_def Let_def split: if_splits)
qed

text \<open>
  A buffer first filled from a two-element Array (eight bytes), then updated with eight
  bytes, and alternatively with a three-element Array.
\<close>

theorem Buffer_update_same_size_overwrites_witness:
  "snd (Buffer_update (buffer0\<lparr>size_field := 8\<rparr>) (Source (Bytes [0, 0, 128, 63, 0, 0, 0, 64])) None
         [BindBuffer ARRAY_BUFFER (Some 1),
          BufferData ARRAY_BUFFER (Float32ArrayOf [Finite 1, Finite 2]) DYNAMIC_DRAW])
     = [BindBuffer ARRAY_BUFFER (Some 1),
        BufferData ARRAY_BUFFER (Float32ArrayOf [Finite 1, Finite 2]) DYNAMIC_DRAW,
        BindBuffer ARRAY_BUFFER (Some 1),
        BufferSubData ARRAY_BUFFER 0 (Bytes [0, 0, 128, 63, 0, 0, 0, 64])] \<and>
   Buffer_update (buffer0\<lparr>size_field := 8\<rparr>) (PlainArray [Finite 1, Finite 2, Finite 3]) (Some 35044)
         [BindBuffer ARRAY_BUFFER (Some 1),
          BufferData ARRAY_BUFFER (Float32ArrayOf [Finite 1, Finite 2]) DYNAMIC_DRAW]
     = (buffer0\<lparr>size_field := 12\<rparr>,
        [BindBuffer ARRAY_BUFFER (Some 1),
         BufferData ARRAY_BUFFER (Float32ArrayOf [Finite 1, Finite 2]) DYNAMIC_DRAW,
         BindBuffer ARRAY_BUFFER (Some 1),
         BufferData ARRAY_BUFFER (Float32ArrayOf [Finite 1, Finite 2, Finite 3]) 35044])"
proof -
  let ?tr1 = "[BindBuffer ARRAY_BUFFER (Some 1),
               BufferData ARRAY_BUFFER (Float32ArrayOf [Finite 1, Finite 2]) DYNAMIC_DRAW]"
  let ?b1 = "buffer0\<lparr>size_field := 8\<rparr>"
  have first: "Buffer_update buffer0 (PlainArray [Finite 1, Finite 2]) None [] = (?b1, ?tr1)"
    by (simp add: Buffer_update_def Buffer_bind_def buffer0_def)
  have same: "Buffer_update ?b1 (Source (Bytes [0, 0, 128, 63, 0, 0, 0, 64])) None ?tr1
      = (fst (Buffer_update ?b1 (Source (Bytes [0, 0, 128, 63, 0, 0, 0, 64])) None ?tr1),
         snd (Buffer_update ?b1 (Source (Bytes [0, 0, 128, 63, 0, 0, 0, 64])) None ?tr1))"
    by simp
  have other: "Buffer_update ?b1 (PlainArray [Finite 1, Finite 2, Finite 3]) (Some 35044) ?tr1
      = (fst (Buffer_update ?b1 (PlainArray [Finite 1, Finite 2, Finite 3]) (Some 35044) ?tr1),
         snd (Buffer_update ?b1 (PlainArray [Finite 1, Finite 2, Finite 3]) (Some 35044) ?tr1))"
    by simp
  show ?thesis
    using Buffer_update_same_size_overwrites [OF first same]
      Buffer_update_same_size_overwrites [OF first other]
    by (simp add: buffer0_def prod_eq_iff)
qed

section \<open>Program: location lookup\<close>

text \<open>
  C2, as the code has it. Take a Program and a name that \<open>vars\<close> does not yet answer for
  (no stored entry, and not a name inherited from \<open>Object.prototype\<close>), and call
  \<open>uniform\<close> twice with that name, or \<open>matrix\<close> twice, or \<open>attrib\<close> twice. When the first
  query of \<open>uniform\<close> or \<open>matrix\<close> finds a location, it is appended to \<open>vars\<close> once, the
  second call leaves \<open>vars\<close> alone, and the two calls together make exactly one location
  query. When the first query finds nothing, the first call throws the lookup error and
  leaves the Program as it was, nothing is cached, and the second call asks again: two
  queries. \<open>attrib\<close> stores whatever \<open>getAttribLocation\<close> returns, and the two calls
  together make exactly one query.
\<close>

theorem location_query_memoized:
  assumes "vars_get (vars P) name = None"
  shows
   "(Program_uniform d P name val1 i1 dim1 tr = (e1, P1, tr1) \<and>
     Program_uniform d P1 name val2 i2 dim2 tr1 = (e2, P2, tr2) \<longrightarrow>
       (case getUniformLocation_ret d tr (program P) name of
          Some loc \<Rightarrow>
            vars P1 = vars P @ [(name, UniformLocation loc)] \<and> vars P2 = vars P1 \<and>
            location_queries (drop (length tr) tr2) = [GetUniformLocation (program P) name]
        | None \<Rightarrow>
            e1 = Some (not_found name) \<and> P1 = P \<and>
            location_queries (drop (length tr) tr2)
              = [GetUniformLocation (program P) name, GetUniformLocation (program P) name])) \<and>
    (Program_matrix d P name m1 t1 tr = (e3, P3, tr3) \<and>
     Program_matrix d P3 name m2 t2 tr3 = (e4, P4, tr4) \<longrightarrow>
       (case getUniformLocation_ret d tr (program P) name of
          Some loc \<Rightarrow>
            vars P3 = vars P @ [(name, UniformLocation loc)] \<and> vars P4 = vars P3 \<and>
            location_queries (drop (length tr) tr4) = [GetUniformLocation (program P) name]
        | None \<Rightarrow>
            e3 = Some (not_found name) \<and> P3 = P \<and>
            location_queries (drop (length tr) tr4)
              = [GetUniformLocation (program P) name, GetUniformLocation (program P) name])) \<and>
    (Program_attrib d P name buf1 size1 stride1 tr = (P5, tr5) \<and>
     Program_attrib d P5 name buf2 size2 stride2 tr5 = (P6, tr6) \<longrightarrow>
       vars P5 = vars P @ [(name, AttribLocation (getAttribLocation_ret d tr (program P) name))] \<and>
       vars P6 = vars P5 \<and>
       location_queries (drop (length tr) tr6) = [GetAttribLocation (program P) name])"
proof (intro conjI impI)
  assume "Program_uniform d P name val1 i1 dim1 tr = (e1, P1, tr1) \<and>
     Program_uniform d P1 name val2 i2 dim2 tr1 = (e2, P2, tr2)"
  then show "case getUniformLocation_ret d tr (program P) name of
          Some loc \<Rightarrow>
            vars P1 = vars P @ [(name, UniformLocation loc)] \<and> vars P2 = vars P1 \<and>
            location_queries (drop (length tr) tr2) = [GetUniformLocation (program P) name]
        | None \<Rightarrow>
            e1 = Some (not_found name) \<and> P1 = P \<and>
            location_queries (drop (length tr) tr2)
              = [GetUniformLocation (program P) name, GetUniformLocation (program P) name]"
    using uniform_twice [OF assms] by blast
next
  assume "Program_matrix d P name m1 t1 tr = (e3, P3, tr3) \<and>
     Program_matrix d P3 name m2 t2 tr3 = (e4, P4, tr4)"
  then show "case getUniformLocation_ret d tr (program P) name of
          Some loc \<Rightarrow>
            vars P3 = vars P @ [(name, UniformLocation loc)] \<and> vars P4 = vars P3 \<and>
            location_queries (drop (length tr) tr4) = [GetUniformLocation (program P) name]
        | None \<Rightarrow>
            e3 = Some (not_found name) \<and> P3 = P \<and>
            location_queries (drop (length tr) tr4)
              = [GetUniformLocation (program P) name, GetUniformLocation (program P) name]"
    using matrix_twice [OF assms] by blast
next
  assume a: "Program_attrib d P name buf1 size1 stride1 tr = (P5, tr5) \<and>
     Program_attrib d P5 name buf2 size2 stride2 tr5 = (P6, tr6)"
  from a attrib_twice [OF assms]
  show "vars P5 = vars P @ [(name, AttribLocation (getAttribLocation_ret d tr (program P) name))]"
    by blast
  from a attrib_twice [OF assms] show "vars P6 = vars P5"
    by blast
  from a attrib_twice [OF assms]
  show "location_queries (drop (length tr) tr6) = [GetAttribLocation (program P) name]"
    by blast
qed

text \<open>
  On the mock context: \<open>uniform\<close> twice with the known name \<open>tint\<close>, \<open>uniform\<close> twice
  with the unknown name \<open>fog\<close>, \<open>matrix\<close> twice with \<open>tint\<close>, and \<open>attrib\<close> twice with
  \<open>points\<close>.
\<close>

theorem location_query_memoized_witness:
  "Program_uniform mock_driver program0 ''tint'' (JNumber (Finite 1)) None None []
     = (None, program0\<lparr>vars := [(''tint'', UniformLocation 7)]\<rparr>,
        [GetUniformLocation 1 ''tint'', Uniform1f (Some (UniformLocation 7)) (JNumber (Finite 1))]) \<and>
   Program_uniform mock_driver (program0\<lparr>vars := [(''tint'', UniformLocation 7)]\<rparr>) ''tint''
       (JNumber (Finite 2)) None None
       [GetUniformLocation 1 ''tint'', Uniform1f (Some (UniformLocation 7)) (JNumber (Finite 1))]
     = (None, program0\<lparr>vars := [(''tint'', UniformLocation 7)]\<rparr>,
        [GetUniformLocation 1 ''tint'', Uniform1f (Some (UniformLocation 7)) (JNumber (Finite 1)),
         Uniform1f (Some (UniformLocation 7)) (JNumber (Finite 2))]) \<and>
   location_queries
       [GetUniformLocation 1 ''tint'', Uniform1f (Some (UniformLocation 7)) (JNumber (Finite 1)),
        Uniform1f (Some (UniformLocation 7)) (JNumber (Finite 2))]
     = [GetUniformLocation 1 ''tint''] \<and>
   location_queries
       (snd (snd (Program_uniform mock_driver program0 ''fog'' (JNumber (Finite 1)) None None
                    [GetUniformLocation 1 ''fog''])))
     = [GetUniformLocation 1 ''fog'', GetUniformLocation 1 ''fog''] \<and>
   location_queries
       (snd (snd (Program_matrix mock_driver
               (fst (snd (Program_matrix mock_driver program0 ''tint''
                            [Finite 1, Finite 0, Finite 0, Finite 1] None [])))
               ''tint'' [Finite 0, Finite 1, Finite 1, Finite 0] None
               (snd (snd (Program_matrix mock_driver program0 ''tint''
                            [Finite 1, Finite 0, Finite 0, Finite 1] None []))))))
     = [GetUniformLocation 1 ''tint''] \<and>
   location_queries
       (snd (Program_attrib mock_driver
               (fst (Program_attrib mock_driver program0 ''points'' buffer0 (Finite 2) None []))
               ''points'' buffer0 (Finite 2) None
               (snd (Program_attrib mock_driver program0 ''points'' buffer0 (Finite 2) None []))))
     = [GetAttribLocation 1 ''points'']"
proof -
  let ?P1 = "program0\<lparr>vars := [(''tint'', UniformLocation 7)]\<rparr>"
  let ?tr1 = "[GetUniformLocation 1 ''tint'', Uniform1f (Some (UniformLocation 7)) (JNumber (Finite 1))]"
  let ?tr2 = "?tr1 @ [Uniform1f (Some (UniformLocation 7)) (JNumber (Finite 2))]"
  have fresh: "vars_get (vars program0) name = None" if "name \<notin> set object_prototype_names" for name
    using that by (simp add: vars_get_def program0_def)
  have tint: "vars_get (vars program0) ''tint'' = None"
    and fog: "vars_get (vars program0) ''fog'' = None"
    and points: "vars_get (vars program0) ''points'' = None"
    by (rule fresh, simp add: object_prototype_names_def)+
  have one: "Program_uniform mock_driver program0 ''tint'' (JNumber (Finite 1)) None None []
      = (None, ?P1, ?tr1)"
    by (simp add: Program_uniform_def locate_tint uniform_dispatch_def not_isArray_scalar vars_get_def)
  have two: "Program_uniform mock_driver ?P1 ''tint'' (JNumber (Finite 2)) None None ?tr1
      = (None, ?P1, ?tr2)"
    by (simp add: Program_uniform_def locate_uniform_def uniform_dispatch_def not_isArray_scalar
        vars_get_def program0_def)
  have lf: "locate_uniform mock_driver program0 ''fog'' tr
      = (Some (not_found ''fog''), program0, tr @ [GetUniformLocation 1 ''fog''])" for tr
    using locate_fresh_missing [OF fog, of mock_driver tr]
    by (simp add: mock_driver_def program0_def)
  have fog1: "Program_uniform mock_driver program0 ''fog'' (JNumber (Finite 1)) None None []
      = (Some (not_found ''fog''), program0, [GetUniformLocation 1 ''fog''])"
    by (simp add: Program_uniform_def lf)
  have fog2: "Program_uniform mock_driver program0 ''fog'' (JNumber (Finite 1)) None None
        [GetUniformLocation 1 ''fog'']
      = (fst (Program_uniform mock_driver program0 ''fog'' (JNumber (Finite 1)) None None
                [GetUniformLocation 1 ''fog'']),
         program0,
         snd (snd (Program_uniform mock_driver program0 ''fog'' (JNumber (Finite 1)) None None
                [GetUniformLocation 1 ''fog''])))"
    by (simp add: Program_uniform_def lf)
  have a1: "Program_attrib mock_driver program0 ''points'' buffer0 (Finite 2) None []
      = (fst (Program_attrib mock_driver program0 ''points'' buffer0 (Finite 2) None []),
         snd (Program_attrib mock_driver program0 ''points'' buffer0 (Finite 2) None []))"
    by simp
  have a2: "Program_attrib mock_driver
        (fst (Program_attrib mock_driver program0 ''points'' buffer0 (Finite 2) None []))
        ''points'' buffer0 (Finite 2) None
        (snd (Program_attrib mock_driver program0 ''points'' buffer0 (Finite 2) None []))
      = (fst (Program_attrib mock_driver
           (fst (Program_attrib mock_driver program0 ''points'' buffer0 (Finite 2) None []))
           ''points'' buffer0 (Finite 2) None
           (snd (Program_attrib mock_driver program0 ''points'' buffer0 (Finite 2) None []))),
         snd (Program_attrib mock_driver
           (fst (Program_attrib mock_driver program0 ''points'' buffer0 (Finite 2) None []))
           ''points'' buffer0 (Finite 2) None
           (snd (Program_attrib mock_driver program0 ''points'' buffer0 (Finite 2) None []))))"
    by simp
  have found: "getUniformLocation_ret mock_driver t q ''tint'' = Some 7"
    and missing: "getUniformLocation_ret mock_driver t q ''fog'' = None" for t q
    by (simp_all add: mock_driver_def)
  have p: "program program0 = 1"
    by (simp add: program0_def)
  from location_query_memoized [OF tint, where d = mock_driver and tr = "[]"
      and ?val1.0 = "JNumber (Finite 1)" and ?i1.0 = None and ?dim1.0 = None
      and ?e1.0 = None and ?P1.0 = ?P1 and ?tr1.0 = ?tr1
      and ?val2.0 = "JNumber (Finite 2)" and ?i2.0 = None and ?dim2.0 = None
      and ?e2.0 = None and ?P2.0 = ?P1 and ?tr2.0 = ?tr2,
      THEN conjunct1, THEN mp, OF conjI [OF one two]]
  have r1: "location_queries ?tr2 = [GetUniformLocation 1 ''tint'']"
    by (simp add: found p)
  from location_query_memoized [OF fog, where d = mock_driver and tr = "[]"
      and ?val1.0 = "JNumber (Finite 1)" and ?i1.0 = None and ?dim1.0 = None
      and ?e1.0 = "Some (not_found ''fog'')" and ?P1.0 = program0
      and ?tr1.0 = "[GetUniformLocation 1 ''fog'']"
      and ?val2.0 = "JNumber (Finite 1)" and ?i2.0 = None and ?dim2.0 = None,
      THEN conjunct1, THEN mp, OF conjI [OF fog1 fog2]]
  have r2: "location_queries
       (snd (snd (Program_uniform mock_driver program0 ''fog'' (JNumber (Finite 1)) None None
                    [GetUniformLocation 1 ''fog''])))
     = [GetUniformLocation 1 ''fog'', GetUniformLocation 1 ''fog'']"
    by (simp add: missing p)
  from location_query_memoized [OF points, where d = mock_driver and tr = "[]"
      and ?buf1.0 = buffer0 and ?size1.0 = "Finite 2" and ?stride1.0 = None
      and ?buf2.0 = buffer0 and ?size2.0 = "Finite 2" and ?stride2.0 = None,
      THEN conjunct2, THEN conjunct2, THEN mp, OF conjI [OF a1 a2]]
  have r3: "location_queries
       (snd (Program_attrib mock_driver
               (fst (Program_attrib mock_driver program0 ''points'' buffer0 (Finite 2) None []))
               ''points'' buffer0 (Finite 2) None
               (snd (Program_attrib mock_driver program0 ''points'' buffer0 (Finite 2) None []))))
     = [GetAttribLocation 1 ''points'']"
    by (simp add: p)
  let ?m1 = "Program_matrix mock_driver program0 ''tint'' [Finite 1, Finite 0, Finite 0, Finite 1] None []"
  let ?m2 = "Program_matrix mock_driver (fst (snd ?m1)) ''tint''
      [Finite 0, Finite 1, Finite 1, Finite 0] None (snd (snd ?m1))"
  have m1: "?m1 = (fst ?m1, fst (snd ?m1), snd (snd ?m1))"
    and m2: "?m2 = (fst ?m2, fst (snd ?m2), snd (snd ?m2))"
    by simp_all
  from location_query_memoized [OF tint, where d = mock_driver and tr = "[]",
      THEN conjunct2, THEN conjunct1, THEN mp, OF conjI [OF m1 m2]]
  have r4: "location_queries (snd (snd ?m2)) = [GetUniformLocation 1 ''tint'']"
    by (simp add: found p)
  from one two r1 r2 r3 r4 show ?thesis by simp
qed

text \<open>
  C2 as stated fails: the uniform \<open>fog\<close> is unknown to the context, and two \<open>uniform\<close>
  calls with that name query \<open>getUniformLocation\<close> twice, each call throwing.
\<close>

theorem uniform_not_found_queried_twice:
  "Program_uniform mock_driver program0 ''fog'' (JNumber (Finite 1)) None None []
     = (Some (Error (''Failed to locate uniform '' @ [CHR 0x27] @ ''fog'' @ [CHR 0x27])), program0,
        [GetUniformLocation 1 ''fog'']) \<and>
   Program_uniform mock_driver program0 ''fog'' (JNumber (Finite 1)) None None
       [GetUniformLocation 1 ''fog'']
     = (Some (Error (''Failed to locate uniform '' @ [CHR 0x27] @ ''fog'' @ [CHR 0x27])), program0,
        [GetUniformLocation 1 ''fog'', GetUniformLocation 1 ''fog'']) \<and>
   length (location_queries [GetUniformLocation 1 ''fog'', GetUniformLocation 1 ''fog'']) = 2"
  by (simp add: Program_uniform_def locate_uniform_def vars_get_def object_prototype_names_def
      mock_driver_def program0_def location_queries_def)

section \<open>Program: dispatch of \<open>uniform\<close>\<close>

text \<open>
  C3, as the code has it. Take a \<open>uniform\<close> call whose location lookup does not throw.
  If the value is array-like, the size is the \<open>dim\<close> argument when that is given and
  truthy, and the length of the array otherwise (also for an explicit \<open>dim\<close> of 0 or
  NaN); when the size is 1, 2, 3 or 4 the vector entry point of that size is invoked with
  the location and the value, the integer variant exactly when the integer flag is set;
  for any other size the context has no such entry point and the call ends in a
  TypeError. If the value is a number or a boolean, \<open>uniform1i\<close> is called when the
  integer flag is set and \<open>uniform1f\<close> otherwise. Any other value invokes no entry point
  and throws: the Error \<open>Invalid uniform value: \<close> followed by the value as a string when
  the value converts to a string, and otherwise the error that the conversion throws
  while the message is built (a TypeError for a Symbol or an object without a string
  conversion).
\<close>

theorem uniform_dispatch_after_lookup:
  assumes "locate_uniform d P name tr = (None, P1, tr1)"
  shows
   "(Igloo_isArray val \<and> (n = 1 \<or> n = 2 \<or> n = 3 \<or> n = 4) \<and>
       vector_size dim_arg val = Finite (real n) \<longrightarrow>
       Program_uniform d P name val i dim_arg tr
         = (None, P1, tr1 @ [UniformVec n (truthy_flag i) (vars_get (vars P1) name) val])) \<and>
    (Igloo_isArray val \<and> vector_size dim_arg val \<noteq> Finite 1 \<and> vector_size dim_arg val \<noteq> Finite 2 \<and>
       vector_size dim_arg val \<noteq> Finite 3 \<and> vector_size dim_arg val \<noteq> Finite 4 \<longrightarrow>
       Program_uniform d P name val i dim_arg tr = (Some TypeError, P1, tr1)) \<and>
    (val = JNumber x \<or> val = JBoolean b \<longrightarrow>
       Program_uniform d P name val i dim_arg tr
         = (None, P1, tr1 @ [if truthy_flag i then Uniform1i (vars_get (vars P1) name) val
                             else Uniform1f (vars_get (vars P1) name) val])) \<and>
    (\<not> Igloo_isArray val \<and> val = JObject c (Inr s) xs \<longrightarrow>
       Program_uniform d P name val i dim_arg tr
         = (Some (Error (''Invalid uniform value: '' @ s)), P1, tr1)) \<and>
    (\<not> Igloo_isArray val \<and> val = JObject c (Inl e) xs \<longrightarrow>
       Program_uniform d P name val i dim_arg tr = (Some e, P1, tr1)) \<and>
    vector_size (Some (Finite r)) val
      = (if r = 0 then Finite (real (length (elements val))) else Finite r) \<and>
    vector_size (Some NaN) val = Finite (real (length (elements val))) \<and>
    vector_size None val = Finite (real (length (elements val)))"
proof -
  have uni: "Program_uniform d P name val i dim_arg tr
      = (case uniform_dispatch (vars_get (vars P1) name) val i dim_arg of
           (e, calls) \<Rightarrow> (e, P1, tr1 @ calls))"
    using assms by (simp add: Program_uniform_def)
  have l: "(case dim_arg of
              None \<Rightarrow> Finite (real (length (elements val)))
            | Some n \<Rightarrow> if truthy_number n then n else Finite (real (length (elements val))))
           = vector_size dim_arg val"
    by (simp add: vector_size_def)
  have vec: "Program_uniform d P name val i dim_arg tr
      = (None, P1, tr1 @ [UniformVec n (truthy_flag i) (vars_get (vars P1) name) val])"
    if "Igloo_isArray val" "n = 1 \<or> n = 2 \<or> n = 3 \<or> n = 4" "vector_size dim_arg val = Finite (real n)"
  proof -
    from that(2,3) have "vector_entry_point (vector_size dim_arg val) = Some n"
      by (simp add: vector_entry_point_Some)
    with that(1) show ?thesis
      by (simp add: uni uniform_dispatch_def l)
  qed
  have none: "Program_uniform d P name val i dim_arg tr = (Some TypeError, P1, tr1)"
    if "Igloo_isArray val" "vector_size dim_arg val \<noteq> Finite 1" "vector_size dim_arg val \<noteq> Finite 2"
      "vector_size dim_arg val \<noteq> Finite 3" "vector_size dim_arg val \<noteq> Finite 4"
  proof -
    from that(2-) have "vector_entry_point (vector_size dim_arg val) = None"
      by (simp add: vector_entry_point_None)
    with that(1) show ?thesis
      by (simp add: uni uniform_dispatch_def l)
  qed
  have scalar: "Program_uniform d P name val i dim_arg tr
         = (None, P1, tr1 @ [if truthy_flag i then Uniform1i (vars_get (vars P1) name) val
                             else Uniform1f (vars_get (vars P1) name) val])"
    if "val = JNumber x \<or> val = JBoolean b"
    using that by (auto simp: uni uniform_dispatch_def not_isArray_scalar)
  have other: "Program_uniform d P name val i dim_arg tr
         = (Some (Error (''Invalid uniform value: '' @ s)), P1, tr1)"
    if "\<not> Igloo_isArray val" "val = JObject c (Inr s) xs"
    unfolding uni using that by (simp add: uniform_dispatch_def)
  have unprintable: "Program_uniform d P name val i dim_arg tr = (Some e, P1, tr1)"
    if "\<not> Igloo_isArray val" "val = JObject c (Inl e) xs"
    unfolding uni using that by (simp add: uniform_dispatch_def)
  have sizes: "vector_size (Some (Finite r)) val
      = (if r = 0 then Finite (real (length (elements val))) else Finite r)"
    "vector_size (Some NaN) val = Finite (real (length (elements val)))"
    "vector_size None val = Finite (real (length (elements val)))"
    by (simp_all add: vector_size_def)
  from vec none scalar other unprintable sizes show ?thesis by blast
qed

text \<open>
  On the mock context, with the uniform \<open>tint\<close>: an array of three numbers; the same
  array with \<open>dim\<close> 2; an array of five numbers; the number 1 with the integer flag; a
  string; a Symbol.
\<close>

theorem uniform_dispatch_after_lookup_witness:
  "Program_uniform mock_driver program0 ''tint'' (js_array [Finite 1, Finite 0, Finite 0]) (Some False)
       None []
     = (None, program0\<lparr>vars := [(''tint'', UniformLocation 7)]\<rparr>,
        [GetUniformLocation 1 ''tint'',
         UniformVec 3 False (Some (UniformLocation 7)) (js_array [Finite 1, Finite 0, Finite 0])]) \<and>
   Program_uniform mock_driver program0 ''tint'' (js_array [Finite 1, Finite 0, Finite 0]) (Some True)
       (Some (Finite 2)) []
     = (None, program0\<lparr>vars := [(''tint'', UniformLocation 7)]\<rparr>,
        [GetUniformLocation 1 ''tint'',
         UniformVec 2 True (Some (UniformLocation 7)) (js_array [Finite 1, Finite 0, Finite 0])]) \<and>
   Program_uniform mock_driver program0 ''tint''
       (js_array [Finite 1, Finite 0, Finite 0, Finite 0, Finite 1]) None None []
     = (Some TypeError, program0\<lparr>vars := [(''tint'', UniformLocation 7)]\<rparr>,
        [GetUniformLocation 1 ''tint'']) \<and>
   Program_uniform mock_driver program0 ''tint'' (JNumber (Finite 1)) (Some True) None []
     = (None, program0\<lparr>vars := [(''tint'', UniformLocation 7)]\<rparr>,
        [GetUniformLocation 1 ''tint'', Uniform1i (Some (UniformLocation 7)) (JNumber (Finite 1))]) \<and>
   Program_uniform mock_driver program0 ''tint'' (JObject ''String'' (Inr ''red'') []) None None []
     = (Some (Error ''Invalid uniform value: red''), program0\<lparr>vars := [(''tint'', UniformLocation 7)]\<rparr>,
        [GetUniformLocation 1 ''tint'']) \<and>
   Program_uniform mock_driver program0 ''tint'' (JObject ''Symbol'' (Inl TypeError) []) None None []
     = (Some TypeError, program0\<lparr>vars := [(''tint'', UniformLocation 7)]\<rparr>,
        [GetUniformLocation 1 ''tint''])"
proof -
  let ?a3 = "js_array [Finite 1, Finite 0, Finite 0]"
  let ?a5 = "js_array [Finite 1, Finite 0, Finite 0, Finite 0, Finite 1]"
  have v: "vars_get [(''tint'', UniformLocation 7)] ''tint'' = Some (UniformLocation 7)"
    by (simp add: vars_get_def)
  have s3: "vector_size None ?a3 = Finite (real 3)"
    and s2: "vector_size (Some (Finite 2)) ?a3 = Finite (real 2)"
    and s5: "vector_size None ?a5 = Finite 5"
    by (simp_all add: vector_size_def js_array_def)
  note t = uniform_dispatch_after_lookup [OF locate_tint]
  from t [where val = ?a3 and n = 3 and dim_arg = None and i = "Some False", THEN conjunct1]
  have 1: "Program_uniform mock_driver program0 ''tint'' ?a3 (Some False) None []
     = (None, program0\<lparr>vars := [(''tint'', UniformLocation 7)]\<rparr>,
        [GetUniformLocation 1 ''tint'', UniformVec 3 False (Some (UniformLocation 7)) ?a3])"
    using s3 by (simp add: isArray_js_array v)
  from t [where val = ?a3 and n = 2 and dim_arg = "Some (Finite 2)" and i = "Some True",
      THEN conjunct1]
  have 2: "Program_uniform mock_driver program0 ''tint'' ?a3 (Some True) (Some (Finite 2)) []
     = (None, program0\<lparr>vars := [(''tint'', UniformLocation 7)]\<rparr>,
        [GetUniformLocation 1 ''tint'', UniformVec 2 True (Some (UniformLocation 7)) ?a3])"
    using s2 by (simp add: isArray_js_array v)
  from t [where val = ?a5 and dim_arg = None and i = None, THEN conjunct2, THEN conjunct1]
  have 3: "Program_uniform mock_driver program0 ''tint'' ?a5 None None []
     = (Some TypeError, program0\<lparr>vars := [(''tint'', UniformLocation 7)]\<rparr>,
        [GetUniformLocation 1 ''tint''])"
    by (simp add: isArray_js_array s5)
  from t [where val = "JNumber (Finite 1)" and x = "Finite 1" and dim_arg = None
      and i = "Some True", THEN conjunct2, THEN conjunct2, THEN conjunct1]
  have 4: "Program_uniform mock_driver program0 ''tint'' (JNumber (Finite 1)) (Some True) None []
     = (None, program0\<lparr>vars := [(''tint'', UniformLocation 7)]\<rparr>,
        [GetUniformLocation 1 ''tint'', Uniform1i (Some (UniformLocation 7)) (JNumber (Finite 1))])"
    by (simp add: v)
  from t [where val = "JObject ''String'' (Inr ''red'') []" and c = "''String''" and s = "''red''"
      and xs = "[]" and dim_arg = None and i = None,
      THEN conjunct2, THEN conjunct2, THEN conjunct2, THEN conjunct1]
  have 5: "Program_uniform mock_driver program0 ''tint'' (JObject ''String'' (Inr ''red'') []) None None []
     = (Some (Error ''Invalid uniform value: red''), program0\<lparr>vars := [(''tint'', UniformLocation 7)]\<rparr>,
        [GetUniformLocation 1 ''tint''])"
    by (simp add: not_isArray_other)
  from t [where val = "JObject ''Symbol'' (Inl TypeError) []" and c = "''Symbol''" and e = TypeError
      and xs = "[]" and dim_arg = None and i = None,
      THEN conjunct2, THEN conjunct2, THEN conjunct2, THEN conjunct2, THEN conjunct1]
  have 6: "Program_uniform mock_driver program0 ''tint'' (JObject ''Symbol'' (Inl TypeError) []) None None []
     = (Some TypeError, program0\<lparr>vars := [(''tint'', UniformLocation 7)]\<rparr>,
        [GetUniformLocation 1 ''tint''])"
    by (simp add: not_isArray_other)
  from 1 2 3 4 5 6 show ?thesis by simp
qed

text \<open>
  C3 as stated fails: with an array of three numbers and an explicit \<open>dim\<close> of 0, the
  entry point invoked is the one of size 3, the length of the array, not one sized to
  the \<open>dim\<close> that was given.
\<close>

theorem uniform_zero_dim_counterexample:
  "Program_uniform mock_driver program0 ''tint'' (js_array [Finite 1, Finite 0, Finite 0])
       None (Some (Finite 0)) []
     = (None, program0\<lparr>vars := [(''tint'', UniformLocation 7)]\<rparr>,
        [GetUniformLocation 1 ''tint'',
         UniformVec 3 False (Some (UniformLocation 7)) (js_array [Finite 1, Finite 0, Finite 0])])"
  by (simp add: Program_uniform_def locate_tint uniform_dispatch_def isArray_js_array
      vector_entry_point_def vars_get_def) (simp add: js_array_def)

section \<open>Framebuffer: the depth renderbuffer\<close>

text \<open>
  C4, as the code has it. On a Framebuffer without a renderbuffer, when the context
  returns a renderbuffer, \<open>attachDepth\<close> binds the framebuffer, creates the renderbuffer,
  sizes it with the given width and height and attaches it, once. Every later call, with
  whatever width and height, binds the framebuffer again and does nothing else: it makes
  no other call on the context and leaves the wrapper, and so the renderbuffer of the
  first call, as it was.
\<close>

theorem attachDepth_later_calls_only_bind:
  assumes "renderbuffer fb = None"
    and "createRenderbuffer_ret d (tr @ [BindFramebuffer FRAMEBUFFER (framebuffer fb)]) = Some rb"
    and "Framebuffer_attachDepth d fb w h tr = (fb1, tr1)"
    and "Framebuffer_attachDepth d fb1 w2 h2 tr1 = (fb2, tr2)"
    and "renderbuffer fb3 \<noteq> None"
  shows "fb1 = fb\<lparr>renderbuffer := Some rb\<rparr> \<and>
     tr1 = tr @ [BindFramebuffer FRAMEBUFFER (framebuffer fb), CreateRenderbuffer,
                 RenderbufferStorage RENDERBUFFER DEPTH_COMPONENT16 w h,
                 FramebufferRenderbuffer FRAMEBUFFER DEPTH_ATTACHMENT RENDERBUFFER (Some rb)] \<and>
     fb2 = fb1 \<and>
     tr2 = tr1 @ [BindFramebuffer FRAMEBUFFER (framebuffer fb)] \<and>
     Framebuffer_attachDepth d fb3 w3 h3 tr3
       = (fb3, tr3 @ [BindFramebuffer FRAMEBUFFER (framebuffer fb3)])"
proof -
  have first: "fb1 = fb\<lparr>renderbuffer := Some rb\<rparr>"
    "tr1 = tr @ [BindFramebuffer FRAMEBUFFER (framebuffer fb), CreateRenderbuffer,
                 RenderbufferStorage RENDERBUFFER DEPTH_COMPONENT16 w h,
                 FramebufferRenderbuffer FRAMEBUFFER DEPTH_ATTACHMENT RENDERBUFFER (Some rb)]"
    using assms(1,2,3) by (auto simp: Framebuffer_attachDepth_def Framebuffer_bind_def Let_def)
  have later: "Framebuffer_attachDepth d g x y t = (g, t @ [BindFramebuffer FRAMEBUFFER (framebuffer g)])"
    if "renderbuffer g \<noteq> None" for g x y t
    using that by (auto simp: Framebuffer_attachDepth_def Framebuffer_bind_def Let_def)
  have "renderbuffer fb1 \<noteq> None" using first by simp
  from later [OF this, of w2 h2 tr1] assms(4) first later [OF assms(5)]
  show ?thesis by simp
qed

text \<open>The scenario of the specification: \<open>attachDepth(64, 64)\<close>, then \<open>attachDepth(128, 128)\<close>.\<close>

theorem attachDepth_later_calls_only_bind_witness:
  "Framebuffer_attachDepth mock_driver framebuffer0 (Finite 64) (Finite 64) []
     = (framebuffer0\<lparr>renderbuffer := Some 2\<rparr>,
        [BindFramebuffer FRAMEBUFFER (Some 1), CreateRenderbuffer,
         RenderbufferStorage RENDERBUFFER DEPTH_COMPONENT16 (Finite 64) (Finite 64),
         FramebufferRenderbuffer FRAMEBUFFER DEPTH_ATTACHMENT RENDERBUFFER (Some 2)]) \<and>
   Framebuffer_attachDepth mock_driver (framebuffer0\<lparr>renderbuffer := Some 2\<rparr>)
       (Finite 128) (Finite 128)
       [BindFramebuffer FRAMEBUFFER (Some 1), CreateRenderbuffer,
        RenderbufferStorage RENDERBUFFER DEPTH_COMPONENT16 (Finite 64) (Finite 64),
        FramebufferRenderbuffer FRAMEBUFFER DEPTH_ATTACHMENT RENDERBUFFER (Some 2)]
     = (framebuffer0\<lparr>renderbuffer := Some 2\<rparr>,
        [BindFramebuffer FRAMEBUFFER (Some 1), CreateRenderbuffer,
         RenderbufferStorage RENDERBUFFER DEPTH_COMPONENT16 (Finite 64) (Finite 64),
         FramebufferRenderbuffer FRAMEBUFFER DEPTH_ATTACHMENT RENDERBUFFER (Some 2),
         BindFramebuffer FRAMEBUFFER (Some 1)])"
proof -
  let ?fb1 = "framebuffer0\<lparr>renderbuffer := Some 2\<rparr>"
  let ?tr1 = "[BindFramebuffer FRAMEBUFFER (Some 1), CreateRenderbuffer,
         RenderbufferStorage RENDERBUFFER DEPTH_COMPONENT16 (Finite 64) (Finite 64),
         FramebufferRenderbuffer FRAMEBUFFER DEPTH_ATTACHMENT RENDERBUFFER (Some 2)]"
  let ?r2 = "Framebuffer_attachDepth mock_driver ?fb1 (Finite 128) (Finite 128) ?tr1"
  have none: "renderbuffer framebuffer0 = None"
    by (simp add: framebuffer0_def)
  have rb: "createRenderbuffer_ret mock_driver
      ([] @ [BindFramebuffer FRAMEBUFFER (framebuffer framebuffer0)]) = Some 2"
    by (simp add: mock_driver_def)
  have one: "Framebuffer_attachDepth mock_driver framebuffer0 (Finite 64) (Finite 64) []
      = (?fb1, ?tr1)"
    by (simp add: Framebuffer_attachDepth_def Framebuffer_bind_def mock_driver_def framebuffer0_def
        Let_def)
  have two: "?r2 = (fst ?r2, snd ?r2)"
    by simp
  have some: "renderbuffer ?fb1 \<noteq> None"
    by simp
  from attachDepth_later_calls_only_bind [OF none rb one two some, of "Finite 0" "Finite 0" "[]"]
  have "fst ?r2 = ?fb1" and "snd ?r2 = ?tr1 @ [BindFramebuffer FRAMEBUFFER (Some 1)]"
    by (simp_all add: framebuffer0_def)
  with one show ?thesis
    by (simp add: prod_eq_iff)
qed

text \<open>
  C4 as stated fails: the second call is not a no-op. After \<open>attachDepth(64, 64)\<close> the
  call \<open>attachDepth(128, 128)\<close> makes one more call on the context, \<open>bindFramebuffer\<close>.
\<close>

theorem attachDepth_second_call_counterexample:
  "Framebuffer_attachDepth mock_driver framebuffer0 (Finite 64) (Finite 64) []
     = (framebuffer0\<lparr>renderbuffer := Some 2\<rparr>,
        [BindFramebuffer FRAMEBUFFER (Some 1), CreateRenderbuffer,
         RenderbufferStorage RENDERBUFFER DEPTH_COMPONENT16 (Finite 64) (Finite 64),
         FramebufferRenderbuffer FRAMEBUFFER DEPTH_ATTACHMENT RENDERBUFFER (Some 2)]) \<and>
   snd (Framebuffer_attachDepth mock_driver (framebuffer0\<lparr>renderbuffer := Some 2\<rparr>)
          (Finite 128) (Finite 128)
        [BindFramebuffer FRAMEBUFFER (Some 1), CreateRenderbuffer,
         RenderbufferStorage RENDERBUFFER DEPTH_COMPONENT16 (Finite 64) (Finite 64),
         FramebufferRenderbuffer FRAMEBUFFER DEPTH_ATTACHMENT RENDERBUFFER (Some 2)])
     \<noteq> [BindFramebuffer FRAMEBUFFER (Some 1), CreateRenderbuffer,
         RenderbufferStorage RENDERBUFFER DEPTH_COMPONENT16 (Finite 64) (Finite 64),
         FramebufferRenderbuffer FRAMEBUFFER DEPTH_ATTACHMENT RENDERBUFFER (Some 2)]"
  by (simp add: Framebuffer_attachDepth_def Framebuffer_bind_def mock_driver_def framebuffer0_def
      Let_def)

section \<open>Igloo: construction from a canvas\<close>

text \<open>
  C5, as the code has it. When the canvas yields no context, constructing the facade from
  it fails with the Error \<open>Could not create WebGL context.\<close>, whatever options the caller
  passes: the constructor has no "no error" mode. That mode is the third argument of the
  static \<open>getContext\<close> alone, which returns null instead of throwing when it is true, and
  throws when it is false or left out.
\<close>

theorem Igloo_constructor_has_no_noerror_mode:
  assumes "canvas_context cv opts = None"
  shows "Igloo_constructor d (FromCanvas cv) opts tr
           = (Inl (Error ''Could not create WebGL context.''), tr) \<and>
         Igloo_getContext cv opts None = Inl (Error ''Could not create WebGL context.'') \<and>
         Igloo_getContext cv opts (Some False) = Inl (Error ''Could not create WebGL context.'') \<and>
         Igloo_getContext cv opts (Some True) = Inr None"
  using assms by (simp add: Igloo_getContext_eq Igloo_constructor_def)

theorem Igloo_constructor_has_no_noerror_mode_witness:
  "Igloo_constructor mock_driver (FromCanvas throwing_canvas) None []
           = (Inl (Error ''Could not create WebGL context.''), []) \<and>
   Igloo_getContext throwing_canvas None None = Inl (Error ''Could not create WebGL context.'') \<and>
   Igloo_getContext throwing_canvas None (Some True) = Inr None"
proof -
  have "canvas_context throwing_canvas None = None"
    by (simp add: canvas_context_def throwing_canvas_def)
  from Igloo_constructor_has_no_noerror_mode [OF this, of mock_driver "[]"]
  show ?thesis by simp
qed

text \<open>
  C5 as stated fails: on a canvas that yields no context, a caller who asks for the
  "no error" mode in the only way the constructor leaves open, through its options, still
  gets the Error and no null marker.
\<close>

theorem Igloo_constructor_noerror_counterexample:
  "fst (Igloo_constructor mock_driver (FromCanvas blank_canvas)
          (Some [(''noerror'', JBoolean True)]) [])
     = Inl (Error ''Could not create WebGL context.'')"
  by (simp add: Igloo_constructor_def Igloo_getContext_def blank_canvas_def)

section \<open>Program: dispatch of \<open>matrix\<close>\<close>

text \<open>
  C6. Take a \<open>matrix\<close> call whose location lookup does not throw. A matrix of \<open>k * k\<close>
  elements, \<open>k\<close> being 2, 3 or 4, invokes the square-matrix entry point of dimension
  \<open>k\<close>, the square root of the element count, with the location, the transpose flag as a
  boolean and the matrix: 4 elements the 2x2 entry point, 9 elements the 3x3 one, 16
  elements the 4x4 one.
\<close>

theorem matrix_entry_point_by_root:
  assumes "locate_uniform d P name tr = (None, P1, tr1)"
  shows "((k = 2 \<or> k = 3 \<or> k = 4) \<and> length m = k * k \<longrightarrow>
            Program_matrix d P name m t tr
              = (None, P1, tr1 @ [UniformMatrix k (vars_get (vars P1) name) (truthy_flag t) m])) \<and>
         (length m = 4 \<longrightarrow> Program_matrix d P name m t tr
              = (None, P1, tr1 @ [UniformMatrix 2 (vars_get (vars P1) name) (truthy_flag t) m])) \<and>
         (length m = 9 \<longrightarrow> Program_matrix d P name m t tr
              = (None, P1, tr1 @ [UniformMatrix 3 (vars_get (vars P1) name) (truthy_flag t) m])) \<and>
         (length m = 16 \<longrightarrow> Program_matrix d P name m t tr
              = (None, P1, tr1 @ [UniformMatrix 4 (vars_get (vars P1) name) (truthy_flag t) m]))"
proof -
  have gen: "Program_matrix d P name m t tr
      = (None, P1, tr1 @ [UniformMatrix j (vars_get (vars P1) name) (truthy_flag t) m])"
    if "j = 2 \<or> j = 3 \<or> j = 4" "length m = j * j" for j
    using that assms by (auto simp: Program_matrix_def matrix_entry_point_def Math_sqrt_square)
  show ?thesis
    using gen [of k] gen [of 2] gen [of 3] gen [of 4] by simp
qed

text \<open>On the mock context: the 2x2 identity, nine zeros, and sixteen zeros transposed.\<close>

theorem matrix_entry_point_by_root_witness:
  "Program_matrix mock_driver program0 ''tint'' [Finite 1, Finite 0, Finite 0, Finite 1] None []
     = (None, program0\<lparr>vars := [(''tint'', UniformLocation 7)]\<rparr>,
        [GetUniformLocation 1 ''tint'',
         UniformMatrix 2 (Some (UniformLocation 7)) False [Finite 1, Finite 0, Finite 0, Finite 1]]) \<and>
   Program_matrix mock_driver program0 ''tint'' (replicate 9 (Finite 0)) None []
     = (None, program0\<lparr>vars := [(''tint'', UniformLocation 7)]\<rparr>,
        [GetUniformLocation 1 ''tint'',
         UniformMatrix 3 (Some (UniformLocation 7)) False (replicate 9 (Finite 0))]) \<and>
   Program_matrix mock_driver program0 ''tint'' (replicate 16 (Finite 0)) (Some True) []
     = (None, program0\<lparr>vars := [(''tint'', UniformLocation 7)]\<rparr>,
        [GetUniformLocation 1 ''tint'',
         UniformMatrix 4 (Some (UniformLocation 7)) True (replicate 16 (Finite 0))])"
proof -
  have v: "vars_get [(''tint'', UniformLocation 7)] ''tint'' = Some (UniformLocation 7)"
    by (simp add: vars_get_def)
  note t = matrix_entry_point_by_root [OF locate_tint]
  from t [where m = "[Finite 1, Finite 0, Finite 0, Finite 1]" and k = 2 and t = None,
      THEN conjunct1]
  have 1: "Program_matrix mock_driver program0 ''tint'' [Finite 1, Finite 0, Finite 0, Finite 1] None []
     = (None, program0\<lparr>vars := [(''tint'', UniformLocation 7)]\<rparr>,
        [GetUniformLocation 1 ''tint'',
         UniformMatrix 2 (Some (UniformLocation 7)) False [Finite 1, Finite 0, Finite 0, Finite 1]])"
    by (simp add: v)
  from t [where m = "replicate 9 (Finite 0)" and t = None,
      THEN conjunct2, THEN conjunct2, THEN conjunct1]
  have 2: "Program_matrix mock_driver program0 ''tint'' (replicate 9 (Finite 0)) None []
     = (None, program0\<lparr>vars := [(''tint'', UniformLocation 7)]\<rparr>,
        [GetUniformLocation 1 ''tint'',
         UniformMatrix 3 (Some (UniformLocation 7)) False (replicate 9 (Finite 0))])"
    by (simp add: v)
  from t [where m = "replicate 16 (Finite 0)" and t = "Some True",
      THEN conjunct2, THEN conjunct2, THEN conjunct2]
  have 3: "Program_matrix mock_driver program0 ''tint'' (replicate 16 (Finite 0)) (Some True) []
     = (None, program0\<lparr>vars := [(''tint'', UniformLocation 7)]\<rparr>,
        [GetUniformLocation 1 ''tint'',
         UniformMatrix 4 (Some (UniformLocation 7)) True (replicate 16 (Finite 0))])"
    by (simp add: v)
  from 1 2 3 show ?thesis by simp
qed

section \<open>Program: compile and link failures\<close>

text \<open>
  C7, as the code has it. Take a context that returns a program object. A shader that is
  created but whose compile status is false makes \<open>makeShader\<close> throw an Error whose
  message is the driver's shader log, or the text \<open>Failed to compile shader\<close> when that
  log is null or empty. When the vertex shader fails in \<open>makeShader\<close>, or the vertex
  shader is made and the fragment shader fails, the constructor throws that same Error
  and no \<open>linkProgram\<close> call has been made. When both shaders are made and the link status
  is false, the constructor throws an Error whose message is the program log, or the
  text \<open>Failed to link program\<close> when the log is null or empty.
\<close>

theorem Program_constructor_failures:
  assumes "createProgram_ret d tr = Some p"
  shows
   "(createShader_ret d t ty = Some s \<and>
     \<not> getShaderParameter_ret d (t @ compile_calls ty s src) s COMPILE_STATUS \<longrightarrow>
       Program_makeShader d ty src t
         = (Inl (Error (or_default
                    (getShaderInfoLog_ret d
                       (t @ compile_calls ty s src @ [GetShaderParameter s COMPILE_STATUS]) s)
                    ''Failed to compile shader'')),
            t @ compile_calls ty s src @ [GetShaderParameter s COMPILE_STATUS, GetShaderInfoLog s])) \<and>
    (Program_makeShader d VERTEX_SHADER vertex (tr @ [CreateProgram]) = (Inl e, tr1) \<longrightarrow>
       Program_constructor d vertex fragment tr = (Inl e, tr1) \<and>
       link_attempts (drop (length tr) tr1) = []) \<and>
    (Program_makeShader d VERTEX_SHADER vertex (tr @ [CreateProgram]) = (Inr vs, tr1) \<and>
     Program_makeShader d FRAGMENT_SHADER fragment (tr1 @ [AttachShader p vs]) = (Inl e, tr2) \<longrightarrow>
       Program_constructor d vertex fragment tr = (Inl e, tr2) \<and>
       link_attempts (drop (length tr) tr2) = []) \<and>
    (Program_makeShader d VERTEX_SHADER vertex (tr @ [CreateProgram]) = (Inr vs, tr1) \<and>
     Program_makeShader d FRAGMENT_SHADER fragment (tr1 @ [AttachShader p vs]) = (Inr fs, tr2) \<and>
     \<not> getProgramParameter_ret d (tr2 @ [AttachShader p fs, LinkProgram p]) p LINK_STATUS \<longrightarrow>
       Program_constructor d vertex fragment tr
         = (Inl (Error (or_default
                   (getProgramInfoLog_ret d
                      (tr2 @ [AttachShader p fs, LinkProgram p, GetProgramParameter p LINK_STATUS]) p)
                   ''Failed to link program'')),
            tr2 @ [AttachShader p fs, LinkProgram p, GetProgramParameter p LINK_STATUS,
                   GetProgramInfoLog p])) \<and>
    or_default None fallback = fallback \<and>
    or_default (Some []) fallback = fallback \<and>
    (msg \<noteq> [] \<longrightarrow> or_default (Some msg) fallback = msg)"
proof -
  have compile: "Program_makeShader d ty src t
         = (Inl (Error (or_default
                    (getShaderInfoLog_ret d
                       (t @ compile_calls ty s src @ [GetShaderParameter s COMPILE_STATUS]) s)
                    ''Failed to compile shader'')),
            t @ compile_calls ty s src @ [GetShaderParameter s COMPILE_STATUS, GetShaderInfoLog s])"
    if "createShader_ret d t ty = Some s"
      "\<not> getShaderParameter_ret d (t @ compile_calls ty s src) s COMPILE_STATUS"
    using that by (rule makeShader_compile_failure)
  have vertex: "Program_constructor d vertex fragment tr = (Inl e, tr1) \<and>
       link_attempts (drop (length tr) tr1) = []"
    if v: "Program_makeShader d VERTEX_SHADER vertex (tr @ [CreateProgram]) = (Inl e, tr1)"
  proof -
    from makeShader_trace [OF v] obtain calls
      where "tr1 = tr @ [CreateProgram] @ calls" "link_attempts calls = []" by auto
    then show ?thesis
      using v assms by (simp add: Program_constructor_def link_attempts_def)
  qed
  have fragment: "Program_constructor d vertex fragment tr = (Inl e, tr2) \<and>
       link_attempts (drop (length tr) tr2) = []"
    if v: "Program_makeShader d VERTEX_SHADER vertex (tr @ [CreateProgram]) = (Inr vs, tr1)"
      and f: "Program_makeShader d FRAGMENT_SHADER fragment (tr1 @ [AttachShader p vs]) = (Inl e, tr2)"
  proof -
    from makeShader_trace [OF v] obtain calls
      where 1: "tr1 = tr @ [CreateProgram] @ calls" "link_attempts calls = []" by auto
    from makeShader_trace [OF f] obtain calls2
      where 2: "tr2 = tr1 @ [AttachShader p vs] @ calls2" "link_attempts calls2 = []" by auto
    have "Program_constructor d vertex fragment tr = (Inl e, tr2)"
      using v f assms by (simp add: Program_constructor_def)
    moreover have "link_attempts (drop (length tr) tr2) = []"
      using 1 2 by (simp add: link_attempts_def)
    ultimately show ?thesis by simp
  qed
  have link: "Program_constructor d vertex fragment tr
         = (Inl (Error (or_default
                   (getProgramInfoLog_ret d
                      (tr2 @ [AttachShader p fs, LinkProgram p, GetProgramParameter p LINK_STATUS]) p)
                   ''Failed to link program'')),
            tr2 @ [AttachShader p fs, LinkProgram p, GetProgramParameter p LINK_STATUS,
                   GetProgramInfoLog p])"
    if "Program_makeShader d VERTEX_SHADER vertex (tr @ [CreateProgram]) = (Inr vs, tr1)"
      "Program_makeShader d FRAGMENT_SHADER fragment (tr1 @ [AttachShader p vs]) = (Inr fs, tr2)"
      "\<not> getProgramParameter_ret d (tr2 @ [AttachShader p fs, LinkProgram p]) p LINK_STATUS"
    using that assms by (simp add: Program_constructor_def)
  have fallback: "or_default None fallback = fallback" "or_default (Some []) fallback = fallback"
    "msg \<noteq> [] \<longrightarrow> or_default (Some msg) fallback = msg"
    by simp_all
  from compile vertex fragment link fallback show ?thesis by blast
qed

text \<open>
  Three contexts: one that rejects every shader, one that rejects fragment shaders, and
  one whose linker fails, each with a diagnostic.
\<close>

theorem Program_constructor_failures_witness:
  "Program_constructor rejecting_driver ''void main() {'' ''void main() {}'' []
     = (Inl (Error ''ERROR: 0:1: syntax error''),
        [CreateProgram, CreateShader VERTEX_SHADER, ShaderSource 2 ''void main() {'',
         CompileShader 2, GetShaderParameter 2 COMPILE_STATUS, GetShaderInfoLog 2]) \<and>
   link_attempts
       [CreateProgram, CreateShader VERTEX_SHADER, ShaderSource 2 ''void main() {'',
        CompileShader 2, GetShaderParameter 2 COMPILE_STATUS, GetShaderInfoLog 2] = [] \<and>
   Program_constructor fragment_rejecting_driver ''void main() {}'' ''void main() { x; }'' []
     = (Inl (Error ''ERROR: 0:2: undeclared identifier''),
        [CreateProgram, CreateShader VERTEX_SHADER, ShaderSource 2 ''void main() {}'',
         CompileShader 2, GetShaderParameter 2 COMPILE_STATUS, AttachShader 1 2,
         CreateShader FRAGMENT_SHADER, ShaderSource 7 ''void main() { x; }'', CompileShader 7,
         GetShaderParameter 7 COMPILE_STATUS, GetShaderInfoLog 7]) \<and>
   Program_constructor unlinkable_driver ''void main() {}'' ''void main() {}'' []
     = (Inl (Error ''varying mismatch''),
        [CreateProgram, CreateShader VERTEX_SHADER, ShaderSource 2 ''void main() {}'',
         CompileShader 2, GetShaderParameter 2 COMPILE_STATUS, AttachShader 1 2,
         CreateShader FRAGMENT_SHADER, ShaderSource 7 ''void main() {}'', CompileShader 7,
         GetShaderParameter 7 COMPILE_STATUS, AttachShader 1 7, LinkProgram 1,
         GetProgramParameter 1 LINK_STATUS, GetProgramInfoLog 1])"
proof -
  let ?bad = "''void main() {''"
  let ?ok = "''void main() {}''"
  let ?x = "''void main() { x; }''"
  let ?vbad = "[CreateProgram, CreateShader VERTEX_SHADER, ShaderSource 2 ?bad,
         CompileShader 2, GetShaderParameter 2 COMPILE_STATUS, GetShaderInfoLog 2]"
  let ?vok = "[CreateProgram, CreateShader VERTEX_SHADER, ShaderSource 2 ?ok,
         CompileShader 2, GetShaderParameter 2 COMPILE_STATUS]"
  have types: "VERTEX_SHADER \<noteq> FRAGMENT_SHADER"
    by (simp add: VERTEX_SHADER_def FRAGMENT_SHADER_def)
  have p1: "createProgram_ret rejecting_driver [] = Some 1"
    and p2: "createProgram_ret fragment_rejecting_driver [] = Some 1"
    and p3: "createProgram_ret unlinkable_driver [] = Some 1"
    by (simp_all add: rejecting_driver_def fragment_rejecting_driver_def unlinkable_driver_def
        mock_driver_def)
  have cs: "createShader_ret rejecting_driver ([] @ [CreateProgram]) VERTEX_SHADER = Some 2"
    and st: "\<not> getShaderParameter_ret rejecting_driver
        (([] @ [CreateProgram]) @ compile_calls VERTEX_SHADER 2 ?bad) 2 COMPILE_STATUS"
    by (simp_all add: rejecting_driver_def mock_driver_def)
  note r = Program_constructor_failures [OF p1]
  from r [THEN conjunct1, THEN mp, OF conjI [OF cs st]]
  have v1: "Program_makeShader rejecting_driver VERTEX_SHADER ?bad ([] @ [CreateProgram])
      = (Inl (Error ''ERROR: 0:1: syntax error''), ?vbad)"
    by (simp add: compile_calls_def rejecting_driver_def mock_driver_def)
  from r [THEN conjunct2, THEN conjunct1, THEN mp, OF v1]
  have 1: "Program_constructor rejecting_driver ?bad ?ok [] = (Inl (Error ''ERROR: 0:1: syntax error''), ?vbad)"
    and 2: "link_attempts ?vbad = []"
    by simp_all
  have v2: "Program_makeShader fragment_rejecting_driver VERTEX_SHADER ?ok ([] @ [CreateProgram])
      = (Inr 2, ?vok)"
    by (simp add: Program_makeShader_def fragment_rejecting_driver_def mock_driver_def types
        not_sym [OF types] Let_def)
  have f2: "Program_makeShader fragment_rejecting_driver FRAGMENT_SHADER ?x (?vok @ [AttachShader 1 2])
      = (Inl (Error ''ERROR: 0:2: undeclared identifier''),
         ?vok @ [AttachShader 1 2, CreateShader FRAGMENT_SHADER, ShaderSource 7 ?x, CompileShader 7,
                 GetShaderParameter 7 COMPILE_STATUS, GetShaderInfoLog 7])"
    by (simp add: Program_makeShader_def fragment_rejecting_driver_def mock_driver_def)
  from Program_constructor_failures [OF p2, THEN conjunct2, THEN conjunct2, THEN conjunct1, THEN mp,
      OF conjI [OF v2 f2]]
  have 3: "Program_constructor fragment_rejecting_driver ?ok ?x []
      = (Inl (Error ''ERROR: 0:2: undeclared identifier''),
         ?vok @ [AttachShader 1 2, CreateShader FRAGMENT_SHADER, ShaderSource 7 ?x, CompileShader 7,
                 GetShaderParameter 7 COMPILE_STATUS, GetShaderInfoLog 7])"
    by simp
  have v3: "Program_makeShader unlinkable_driver VERTEX_SHADER ?ok ([] @ [CreateProgram])
      = (Inr 2, ?vok)"
    by (simp add: Program_makeShader_def unlinkable_driver_def mock_driver_def)
  have f3: "Program_makeShader unlinkable_driver FRAGMENT_SHADER ?ok (?vok @ [AttachShader 1 2])
      = (Inr 7, ?vok @ [AttachShader 1 2, CreateShader FRAGMENT_SHADER, ShaderSource 7 ?ok,
                        CompileShader 7, GetShaderParameter 7 COMPILE_STATUS])"
    by (simp add: Program_makeShader_def unlinkable_driver_def mock_driver_def)
  have l3: "\<not> getProgramParameter_ret unlinkable_driver
      ((?vok @ [AttachShader 1 2, CreateShader FRAGMENT_SHADER, ShaderSource 7 ?ok,
                        CompileShader 7, GetShaderParameter 7 COMPILE_STATUS])
        @ [AttachShader 1 7, LinkProgram 1]) 1 LINK_STATUS"
    by (simp add: unlinkable_driver_def)
  from Program_constructor_failures [OF p3, THEN conjunct2, THEN conjunct2, THEN conjunct2,
      THEN conjunct1, THEN mp, OF conjI [OF v3 conjI [OF f3 l3]]]
  have 4: "Program_constructor unlinkable_driver ?ok ?ok []
      = (Inl (Error ''varying mismatch''),
         ?vok @ [AttachShader 1 2, CreateShader FRAGMENT_SHADER, ShaderSource 7 ?ok,
                 CompileShader 7, GetShaderParameter 7 COMPILE_STATUS, AttachShader 1 7,
                 LinkProgram 1, GetProgramParameter 1 LINK_STATUS, GetProgramInfoLog 1])"
    by (simp add: unlinkable_driver_def)
  from 1 2 3 4 show ?thesis by simp
qed

text \<open>
  C7 as stated fails: when the compiler rejects the shader and the driver's log is the
  empty string, the Error carries the text \<open>Failed to compile shader\<close>, not the log.
\<close>

theorem Program_constructor_empty_log_counterexample:
  "fst (Program_constructor silent_driver ''void main() {'' ''void main() {}'' [])
     = Inl (Error ''Failed to compile shader'') \<and>
   getShaderInfoLog_ret silent_driver
       [CreateProgram, CreateShader VERTEX_SHADER, ShaderSource 2 ''void main() {'',
        CompileShader 2, GetShaderParameter 2 COMPILE_STATUS] 2
     = Some ''''"
  by (simp add: Program_constructor_def Program_makeShader_def silent_driver_def mock_driver_def)

section \<open>Program: \<open>disable\<close>\<close>

text \<open>
  C8. For every Program the code can build, \<open>disable\<close> throws nothing, leaves the
  Program and with it every stored location as it was, and the only calls it makes on
  the context are \<open>disableVertexAttribArray\<close>, one for each tracked entry whose value is
  a number (an attribute location) and none for an entry that holds a uniform location:
  the numbers passed are those of the attribute entries, each as often as it is stored.
\<close>

theorem disable_attribute_locations_only:
  assumes "vars_ok (vars P)"
  shows "Program_disable P tr
           = (None, P, tr @ map DisableVertexAttribArray (tracked_attributes (vars P))) \<and>
         mset (tracked_attributes (vars P))
           = mset (List.map_filter attribute_number (map snd (vars P)))"
proof -
  have d: "distinct (map fst (vars P))"
    using assms by (simp add: vars_ok_def)
  have "mset (tracked_attributes (vars P))
      = mset (List.map_filter (\<lambda>k. Option.bind (map_of (vars P) k) attribute_number)
                (map fst (vars P)))"
    unfolding tracked_attributes_def mset_map_filter mset_for_in_keys ..
  then show ?thesis
    by (simp add: Program_disable_def disable_loop_eq [OF assms] tracked_attributes_def
        map_filter_keys [OF d])
qed

text \<open>A Program with the uniform \<open>tint\<close> and the attributes \<open>points\<close> and \<open>normal\<close>.\<close>

theorem disable_attribute_locations_only_witness:
  "Program_disable program1 [Uniform1f (Some (UniformLocation 7)) (JNumber (Finite 1))]
     = (None, program1,
        [Uniform1f (Some (UniformLocation 7)) (JNumber (Finite 1)),
         DisableVertexAttribArray 0, DisableVertexAttribArray 3])"
proof -
  have ok: "vars_ok (vars program1)"
    by (simp add: vars_ok_def program1_def object_prototype_names_def)
  have t: "tracked_attributes (vars program1) = [0, 3]"
    by (simp add: tracked_attributes_def for_in_keys_def is_array_index_def is_digit_def
        program1_def List.map_filter_simps)
  from disable_attribute_locations_only [OF ok,
      of "[Uniform1f (Some (UniformLocation 7)) (JNumber (Finite 1))]"]
  show ?thesis by (simp add: t)
qed

section \<open>Framebuffer: construction\<close>

text \<open>
  C9. \<open>new Framebuffer(gl)\<close> always calls \<open>createFramebuffer\<close> and wraps what it returns.
  \<open>new Framebuffer(gl, x)\<close> never calls it and wraps the parameter: \<open>x\<close> itself when \<open>x\<close> is
  null or a framebuffer (and null, the declared default, when \<open>x\<close> is \<open>undefined\<close>). The
  parameter holds null both when the argument is left out and when null is passed, yet
  the two calls differ: what decides is the number of arguments.
\<close>

theorem Framebuffer_constructor_argument_count:
  "Framebuffer_constructor d None tr
     = (\<lparr>framebuffer = createFramebuffer_ret d tr, renderbuffer = None\<rparr>, tr @ [CreateFramebuffer]) \<and>
   Framebuffer_constructor d (Some a) tr
     = (\<lparr>framebuffer = framebuffer_param (Some a), renderbuffer = None\<rparr>, tr) \<and>
   framebuffer_param (Some ArgNull) = None \<and>
   framebuffer_param (Some (ArgFramebuffer h)) = Some h \<and>
   framebuffer_param None = framebuffer_param (Some ArgNull) \<and>
   Framebuffer_constructor d None tr \<noteq> Framebuffer_constructor d (Some ArgNull) tr"
  by (simp add: Framebuffer_constructor_def)

theorem Framebuffer_constructor_argument_count_witness:
  "Framebuffer_constructor mock_driver None []
     = (\<lparr>framebuffer = Some 1, renderbuffer = None\<rparr>, [CreateFramebuffer]) \<and>
   Framebuffer_constructor mock_driver (Some ArgNull) []
     = (\<lparr>framebuffer = None, renderbuffer = None\<rparr>, []) \<and>
   Framebuffer_constructor mock_driver (Some (ArgFramebuffer 5)) []
     = (\<lparr>framebuffer = Some 5, renderbuffer = None\<rparr>, [])"
  using Framebuffer_constructor_argument_count [of mock_driver "[]" ArgNull 5]
    Framebuffer_constructor_argument_count [of mock_driver "[]" "ArgFramebuffer 5" 5]
  by (simp add: mock_driver_def)

section \<open>Igloo: the \<open>gl\<close> field\<close>

text \<open>
  C10. Given a canvas, the constructor calls \<open>getContext\<close> without the no-error flag,
  and that call never returns null. So construction either throws, when the canvas
  yields no context, or proceeds with the context the canvas returned: the branch that
  would leave the canvas in \<open>gl\<close> is never taken, and the \<open>gl\<close> field of a constructed
  facade is never the canvas.
\<close>

theorem Igloo_constructor_never_keeps_canvas:
  "Igloo_getContext cv opts None \<noteq> Inr None \<and>
   (case canvas_context cv opts of
      None \<Rightarrow> Igloo_constructor d (FromCanvas cv) opts tr
                = (Inl (Error ''Could not create WebGL context.''), tr)
    | Some ctx \<Rightarrow> Igloo_constructor d (FromCanvas cv) opts tr
                = (Inr \<lparr>gl = GLContext ctx, canvas = canvas_id cv,
                        defaultFramebuffer = \<lparr>framebuffer = None, renderbuffer = None\<rparr>\<rparr>, tr)) \<and>
   (\<forall>ig tr1 n. Igloo_constructor d (FromCanvas cv) opts tr = (Inr ig, tr1) \<longrightarrow> gl ig \<noteq> GLCanvas n)"
  by (auto simp: Igloo_getContext_eq Igloo_constructor_def Framebuffer_constructor_def
      split: option.splits)

theorem Igloo_constructor_never_keeps_canvas_witness:
  "Igloo_constructor mock_driver (FromCanvas webgl2_canvas) None []
     = (Inr \<lparr>gl = GLContext \<lparr>context_id = 9, canvas_of = 3\<rparr>, canvas = 3,
             defaultFramebuffer = \<lparr>framebuffer = None, renderbuffer = None\<rparr>\<rparr>, []) \<and>
   gl \<lparr>gl = GLContext \<lparr>context_id = 9, canvas_of = 3\<rparr>, canvas = 3,
        defaultFramebuffer = \<lparr>framebuffer = None, renderbuffer = None\<rparr>\<rparr> \<noteq> GLCanvas 3 \<and>
   Igloo_constructor mock_driver (FromCanvas throwing_canvas) None []
     = (Inl (Error ''Could not create WebGL context.''), [])"
proof -
  have c: "canvas_context webgl2_canvas None = Some \<lparr>context_id = 9, canvas_of = 3\<rparr>"
    by (simp add: canvas_context_def webgl2_canvas_def)
  have t: "canvas_context throwing_canvas None = None"
    by (simp add: canvas_context_def throwing_canvas_def)
  have i: "canvas_id webgl2_canvas = 3"
    by (simp add: webgl2_canvas_def)
  show ?thesis
    using Igloo_constructor_never_keeps_canvas [of webgl2_canvas None mock_driver "[]"]
      Igloo_constructor_never_keeps_canvas [of throwing_canvas None mock_driver "[]"]
    by (simp add: c t i)
qed

end
